theory Spec2Isabelle
  imports Main
begin

section \<open>JavaScript values\<close>

text \<open>
  The client is TypeScript. Fields typed \<open>any\<close> hold arbitrary JavaScript values; the
  code only ever tests them for truthiness or passes them on. A JavaScript number is a
  double. The integers of magnitude below \<open>2^53\<close> are exact in a double and are modelled
  as themselves, \<open>JNum n\<close>; the values the code handles (millisecond timestamps, second
  counts, exit codes) are of this kind. \<open>JNaN\<close> is NaN. \<open>JLarge neg\<close> is a number of
  magnitude \<open>2^53\<close> or more, a rounded double or an infinity, negative when \<open>neg\<close>
  holds: the model keeps its sign and does not compute its digits. \<open>JLargeText\<close> is the
  text that the code prints from such a number, likewise not computed. Negative zero is
  not told apart from zero; the code compares and prints both alike. \<open>JError m\<close> is an
  \<open>Error\<close> object whose \<open>message\<close> is \<open>m\<close>.
\<close>

datatype jsval =
    JUndefined
  | JNull
  | JBool bool
  | JNum int
  | JNaN
  | JLarge bool
  | JStr string
  | JLargeText
  | JArr "jsval list"
  | JObj "(string \<times> jsval) list"
  | JError string

text \<open>ToBoolean: what \<open>if (v)\<close>, \<open>!v\<close>, \<open>v ? a : b\<close> and \<open>v || d\<close> test.\<close>

fun truthy :: "jsval \<Rightarrow> bool" where
  "truthy JUndefined = False"
| "truthy JNull = False"
| "truthy (JBool b) = b"
| "truthy (JNum n) = (n \<noteq> 0)"
| "truthy JNaN = False"
| "truthy (JLarge neg) = True"
| "truthy (JStr s) = (s \<noteq> [])"
| "truthy JLargeText = True"
| "truthy (JArr xs) = True"
| "truthy (JObj kvs) = True"
| "truthy (JError m) = True"

text \<open>
  \<open>v?.k\<close>: \<open>undefined\<close> on \<open>undefined\<close> and \<open>null\<close>, the property on an object,
  \<open>undefined\<close> for a key the value does not have.
\<close>

fun optprop :: "jsval \<Rightarrow> string \<Rightarrow> jsval" where
  "optprop (JObj kvs) k = (case map_of kvs k of None \<Rightarrow> JUndefined | Some v \<Rightarrow> v)"
| "optprop v k = JUndefined"

text \<open>
  A promise either resolves to a value or rejects; \<open>await\<close> turns the rejection into a
  thrown error. Every \<open>catch (err)\<close> of the code reads \<open>err.message\<close>, so a thrown
  value is modelled by its message.
\<close>

datatype 'a outcome = Resolves 'a | Throws string

section \<open>Strings\<close>

text \<open>
  A \<open>string\<close> here is the list of the UTF-16 code units of the JavaScript string, for
  code units below 256 (one \<open>char\<close> each, Latin-1).
\<close>

definition isWhiteSpace :: "char \<Rightarrow> bool" where
  \<comment> \<open>WhiteSpace and LineTerminator of ECMAScript, below 256: TAB, LF, VT, FF, CR, SP, NBSP\<close>
  "isWhiteSpace c = (of_char c \<in> {9, 10, 11, 12, 13, 32, 160 :: nat})"

definition trimStart :: "string \<Rightarrow> string" where
  "trimStart s = dropWhile isWhiteSpace s"

definition trim :: "string \<Rightarrow> string" where
  "trim s = rev (dropWhile isWhiteSpace (rev (dropWhile isWhiteSpace s)))"

definition lowerChar :: "char \<Rightarrow> char" where
  \<comment> \<open>\<open>A\<close>..\<open>Z\<close>, and the Latin-1 capitals U+00C0..U+00DE without the sign U+00D7\<close>
  "lowerChar c =
     (let n = (of_char c :: nat) in
      if 65 \<le> n \<and> n \<le> 90 then char_of (n + 32)
      else if 192 \<le> n \<and> n \<le> 214 then char_of (n + 32)
      else if 216 \<le> n \<and> n \<le> 222 then char_of (n + 32)
      else c)"

definition toLowerCase :: "string \<Rightarrow> string" where
  "toLowerCase s = map lowerChar s"

definition endsWith :: "string \<Rightarrow> string \<Rightarrow> bool" where
  "endsWith s t = (length t \<le> length s \<and> drop (length s - length t) s = t)"

definition slice0m1 :: "string \<Rightarrow> string" where
  \<comment> \<open>\<open>s.slice(0, -1)\<close>: all but the last code unit; the empty string stays empty\<close>
  "slice0m1 s = take (length s - 1) s"

subsection \<open>Digits\<close>

definition digitValue :: "char \<Rightarrow> nat option" where
  "digitValue c =
     (let n = (of_char c :: nat) in
      if 48 \<le> n \<and> n \<le> 57 then Some (n - 48)
      else if 97 \<le> n \<and> n \<le> 122 then Some (n - 87)
      else if 65 \<le> n \<and> n \<le> 90 then Some (n - 55)
      else None)"

definition isRadixDigit :: "nat \<Rightarrow> char \<Rightarrow> bool" where
  "isRadixDigit R c = (case digitValue c of None \<Rightarrow> False | Some d \<Rightarrow> d < R)"

definition radixValue :: "nat \<Rightarrow> string \<Rightarrow> nat" where
  "radixValue R z = foldl (\<lambda>acc c. acc * R + the (digitValue c)) 0 z"

subsection \<open>Numbers\<close>

text \<open>
  The numbers that the string functions produce: NaN, an integer of magnitude below
  \<open>2^53\<close> (exact in a double), or a number of magnitude \<open>2^53\<close> or more with its sign.
\<close>

datatype jsnumber = NaN | Exact int | Large bool

definition isSafeInteger :: "int \<Rightarrow> bool" where
  "isSafeInteger v = (- 9007199254740992 < v \<and> v < 9007199254740992)"

text \<open>
  The Number value of a mathematical integer \<open>v\<close> (the double nearest to it): \<open>v\<close>
  itself when its magnitude is below \<open>2^53\<close>; otherwise rounding, which is monotone and
  keeps \<open>2^53\<close> fixed, gives a double of magnitude at least \<open>2^53\<close> with the sign of
  \<open>v\<close>, or an infinity.
\<close>

definition toNumber :: "int \<Rightarrow> jsnumber" where
  "toNumber v = (if isSafeInteger v then Exact v else Large (v < 0))"

text \<open>
  \<open>x * k\<close> for a positive integer constant \<open>k\<close>: NaN stays NaN, the product of two
  exact integers is the Number value of their product, a large number stays large.
\<close>

fun timesConstant :: "jsnumber \<Rightarrow> int \<Rightarrow> jsnumber" where
  "timesConstant NaN k = NaN"
| "timesConstant (Exact a) k = toNumber (a * k)"
| "timesConstant (Large neg) k = Large neg"

fun isNaN :: "jsnumber \<Rightarrow> bool" where
  "isNaN NaN = True"
| "isNaN x = False"

text \<open>\<open>x < 0\<close>; false on NaN.\<close>

fun lessThanZero :: "jsnumber \<Rightarrow> bool" where
  "lessThanZero NaN = False"
| "lessThanZero (Exact a) = (a < 0)"
| "lessThanZero (Large neg) = neg"

fun numberValue :: "jsnumber \<Rightarrow> jsval" where
  "numberValue NaN = JNaN"
| "numberValue (Exact a) = JNum a"
| "numberValue (Large neg) = JLarge neg"

subsection \<open>parseInt\<close>

text \<open>
  \<open>parseInt(string, radix)\<close> after ECMAScript: skip leading white space, read a sign,
  fix the radix (\<open>0\<close> stands for an omitted radix: 10, or 16 after a \<open>0x\<close> prefix), take
  the longest prefix of digits of that radix; no digit gives NaN, otherwise the result
  is the Number value of the signed integer that the digits denote.
\<close>

definition parseInt :: "string \<Rightarrow> nat \<Rightarrow> jsnumber" where
  "parseInt inputString radix =
     (let S = trimStart inputString;
          sign = (if S \<noteq> [] \<and> hd S = CHR ''-'' then - 1 else 1 :: int);
          S1 = (if S \<noteq> [] \<and> (hd S = CHR ''+'' \<or> hd S = CHR ''-'') then tl S else S)
      in if radix \<noteq> 0 \<and> (radix < 2 \<or> 36 < radix) then NaN
         else
           let stripPrefix = (radix = 0 \<or> radix = 16);
               hex = (stripPrefix \<and> (take 2 S1 = ''0x'' \<or> take 2 S1 = ''0X''));
               R = (if hex then 16 else if radix = 0 then 10 else radix);
               S2 = (if hex then drop 2 S1 else S1);
               Z = takeWhile (isRadixDigit R) S2
           in if Z = [] then NaN else toNumber (sign * int (radixValue R Z)))"

section \<open>Result records\<close>

text \<open>
  Every core operation returns an object with \<open>success\<close>, \<open>message\<close>, \<open>exitCode\<close> and
  optional further fields; an optional field that is left out is \<open>JUndefined\<close> or
  \<open>None\<close>. \<open>error\<close> is the caught error or the job's error value.
\<close>

record command_result =
  success :: bool
  message :: string
  exitCode :: int
  error :: jsval

record 'd data_result = command_result +
  data :: "'d option"

text \<open>The object literal \<open>{success, message, exitCode}\<close> with nothing else.\<close>

definition plain :: "bool \<Rightarrow> string \<Rightarrow> int \<Rightarrow> 'd data_result" where
  "plain s m e = \<lparr>success = s, message = m, exitCode = e, error = JUndefined, data = None\<rparr>"

section \<open>Cache TTL parser and formatter (interactive-core)\<close>

fun digitsOf :: "nat \<Rightarrow> string" where
  "digitsOf n =
     (if n < 10 then [char_of (48 + n)] else digitsOf (n div 10) @ [char_of (48 + n mod 10)])"

text \<open>
  \<open>`${n}`\<close> for an integer \<open>n\<close>: its decimal digits while the magnitude is below
  \<open>10^21\<close>. From there on JavaScript prints an exponent form, which is not modelled
  (\<open>None\<close>).
\<close>

definition numberToString :: "int \<Rightarrow> string option" where
  "numberToString n =
     (if n \<le> - 1000000000000000000000 \<or> 1000000000000000000000 \<le> n then None
      else if n < 0 then Some (CHR ''-'' # digitsOf (nat (- n)))
      else Some (digitsOf (nat n)))"

text \<open>
  \<open>formatCacheTtlCore\<close>. On an exact integer the comparisons, \<open>Math.floor(seconds / 60)\<close>
  and the printing are exact. On NaN both comparisons are false and the text is
  \<open>NaN hours\<close>. On a large number the text depends on digits that are not modelled, and
  the result is \<open>None\<close>.
\<close>

definition formatCacheTtlCore :: "jsnumber \<Rightarrow> jsval data_result option" where
  "formatCacheTtlCore seconds =
     (case seconds of
        NaN \<Rightarrow>
          Some \<lparr>success = True, message = ''NaN hours'', exitCode = 0, error = JUndefined,
                data = Some (JObj [(''seconds'', JNaN),
                                   (''formattedString'', JStr ''NaN hours'')])\<rparr>
      | Large neg \<Rightarrow> None
      | Exact n \<Rightarrow>
          (if isSafeInteger n then
             (let formatted =
                   (if n < 60 then map_option (\<lambda>d. d @ '' seconds'') (numberToString n)
                    else if n < 3600 then
                      (let minutes = n div 60
                       in map_option
                            (\<lambda>d. d @ '' minute'' @ (if minutes \<noteq> 1 then ''s'' else []))
                            (numberToString minutes))
                    else
                      (let hours = n div 3600
                       in map_option
                            (\<lambda>d. d @ '' hour'' @ (if hours \<noteq> 1 then ''s'' else []))
                            (numberToString hours)))
              in (case formatted of
                    None \<Rightarrow> None
                  | Some formattedString \<Rightarrow>
                      Some \<lparr>success = True, message = formattedString, exitCode = 0,
                            error = JUndefined,
                            data = Some (JObj [(''seconds'', JNum n),
                                               (''formattedString'', JStr formattedString)])\<rparr>))
           else None))"

text \<open>\<open>formatCacheTtlCore(seconds).message\<close> as a value.\<close>

definition formattedMessage :: "jsnumber \<Rightarrow> jsval" where
  "formattedMessage seconds =
     (case formatCacheTtlCore seconds of None \<Rightarrow> JLargeText | Some r \<Rightarrow> JStr (message r))"

text \<open>
  \<open>parseWorkflowCacheTtlCore\<close>. The body is wrapped in \<open>try\<close>/\<open>catch\<close>; the operations
  in it (\<open>trim\<close>, \<open>toLowerCase\<close>, \<open>endsWith\<close>, \<open>slice\<close>, \<open>parseInt\<close>, \<open>isNaN\<close>,
  \<open>formatCacheTtlCore\<close>) do not throw on a string, so the \<open>catch\<close> branch, which would
  return \<open>Invalid format. Examples: 30s, 10m, 2h\<close>, has no path leading to it.
\<close>

definition parseWorkflowCacheTtlCore :: "string \<Rightarrow> jsval data_result" where
  "parseWorkflowCacheTtlCore input =
     (let normalizedInput = toLowerCase (trim input);
          seconds =
            (if endsWith normalizedInput ''s'' then parseInt (slice0m1 normalizedInput) 0
             else if endsWith normalizedInput ''m'' then
               timesConstant (parseInt (slice0m1 normalizedInput) 0) 60
             else if endsWith normalizedInput ''h'' then
               timesConstant (parseInt (slice0m1 normalizedInput) 0) 3600
             else parseInt normalizedInput 0)
      in if isNaN seconds \<or> lessThanZero seconds then
           plain False ''Invalid cache TTL. Must be a positive number.'' 1
         else
           \<lparr>success = True, message = ''Cache TTL parsed successfully'', exitCode = 0,
             error = JUndefined,
             data = Some (JObj [(''seconds'', numberValue seconds),
                                (''formattedString'', formattedMessage seconds)])\<rparr>)"

section \<open>Configuration, remote API and injected dependencies\<close>

text \<open>\<open>CLIConfig\<close> (types/config). A missing service account is the empty path.\<close>

record cli_config =
  service_account_path :: string
  api_endpoint :: string
  recent_uuids :: "string list"
  debug_mode :: bool
  test_mode :: bool
  workflow_cache_ttl :: int

text \<open>
  The responses of the remote API, after the client factory types of types/analyze and
  types/results: \<open>{data: any}\<close>, \<open>{status?: string, results?: any, error?: any}\<close> and
  \<open>{uuid?: string, ...}\<close>. A key that is absent reads as \<open>undefined\<close>, so
  \<open>'error' in result && result.error\<close> is the truthiness of \<open>jr_error\<close>.
\<close>

datatype auth_verification_result = AuthVerificationResult (auth_data: jsval)

datatype job_results_response =
  JobResultsResponse (jr_status: "string option") (jr_results: jsval) (jr_error: jsval)

datatype analysis_job_result =
  AnalysisJobResult (job_uuid: "string option") (job_more: "(string \<times> jsval) list")

text \<open>
  An argument of \<open>getResults\<close>: left out, NaN, an exact integer, or a large number
  with its sign.
\<close>

datatype jsarg = Omitted | NaNArg | Num int | LargeArg bool

type_synonym buffer = string

text \<open>
  The API client as the code sees it: what each method's promise settles to. Each core
  operation calls each method at most once.
\<close>

record client =
  client_verifyAuth :: "auth_verification_result outcome"
  client_getResults :: "string \<Rightarrow> jsarg \<Rightarrow> jsarg \<Rightarrow> job_results_response outcome"
  client_analyzeDocument :: "buffer \<Rightarrow> string \<Rightarrow> string \<Rightarrow> analysis_job_result outcome"
  client_getWorkflows :: "jsval outcome"

text \<open>
  The injected dependencies (client factory, config manager, file system, path
  utilities); \<open>clientFactory\<close> takes \<open>serviceAccountPath\<close> and \<open>apiBaseUrl\<close>.
\<close>

record dependencies =
  clientFactory :: "string \<Rightarrow> string \<Rightarrow> client outcome"
  loadConfig :: cli_config
  saveConfig :: "cli_config \<Rightarrow> unit outcome"
  existsSync :: "string \<Rightarrow> bool"
  readFileSync :: "string \<Rightarrow> buffer outcome"
  basename :: "string \<Rightarrow> string"

text \<open>
  The effects of a run, in the order they happen: the four calls to the remote API, and
  the write of the configuration file.
\<close>

datatype call =
    VerifyAuth
  | GetResults string jsarg jsarg
  | AnalyzeDocument buffer string string
  | GetWorkflows
  | SaveConfig cli_config

fun isGetResults :: "call \<Rightarrow> bool" where
  "isGetResults (GetResults u p m) = True"
| "isGetResults c = False"

section \<open>commands/auth\<close>

definition authenticateWithApi :: "cli_config \<Rightarrow> dependencies \<Rightarrow> jsval data_result \<times> call list" where
  "authenticateWithApi config deps =
     (if service_account_path config = [] then
        (plain False ''Client not initialized. Please configure a service account first.'' 1, [])
      else
        case clientFactory deps (service_account_path config) (api_endpoint config) of
          Throws m \<Rightarrow>
            (\<lparr>success = False, message = ''Authentication error: '' @ m, exitCode = 1,
              error = JError m, data = None\<rparr>, [])
        | Resolves client \<Rightarrow>
            (case client_verifyAuth client of
               Throws m \<Rightarrow>
                 (\<lparr>success = False, message = ''Authentication error: '' @ m, exitCode = 1,
                   error = JError m, data = None\<rparr>, [VerifyAuth])
             | Resolves authResult \<Rightarrow>
                 (\<lparr>success = truthy (auth_data authResult),
                   message = (if truthy (auth_data authResult) then ''Authentication successful!''
                              else ''Authentication failed!''),
                   exitCode = (if truthy (auth_data authResult) then 0 else 1),
                   error = JUndefined,
                   data = Some (auth_data authResult)\<rparr>, [VerifyAuth])))"

section \<open>commands/results\<close>

datatype numstr = NoOpt | NumOpt int | StrOpt string

record results_options =
  wait :: bool
  pollInterval :: numstr
  maxAttempts :: numstr

record results_command_result = command_result +
  status :: "string option"
  results :: jsval

text \<open>
  \<open>typeof v === 'string' ? parseInt(v, 10) : (v || d)\<close>.
\<close>

definition optionNumber :: "numstr \<Rightarrow> int \<Rightarrow> jsarg" where
  "optionNumber v d =
     (case v of
        StrOpt s \<Rightarrow>
          (case parseInt s 10 of
             NaN \<Rightarrow> NaNArg
           | Exact n \<Rightarrow> Num n
           | Large neg \<Rightarrow> LargeArg neg)
      | NumOpt n \<Rightarrow> Num (if n = 0 then d else n)
      | NoOpt \<Rightarrow> Num d)"

definition failure :: "string \<Rightarrow> results_command_result" where
  "failure m = \<lparr>success = False, message = m, exitCode = 1, error = JUndefined,
                 status = None, results = JUndefined\<rparr>"

definition thrown :: "string \<Rightarrow> string \<Rightarrow> results_command_result" where
  "thrown prefix m = \<lparr>success = False, message = prefix @ m, exitCode = 1, error = JError m,
                       status = None, results = JUndefined\<rparr>"

text \<open>
  \<open>getResultsCore\<close> of commands/results. It assigns \<open>config.recent_uuids\<close> on the
  caller's object, so the model returns the configuration as the run leaves it, and the
  calls the run made.
\<close>

definition getResultsCore ::
  "string \<Rightarrow> results_options \<Rightarrow> cli_config \<Rightarrow> dependencies
     \<Rightarrow> results_command_result \<times> cli_config \<times> call list" where
  "getResultsCore uuid options config deps =
     (if service_account_path config = [] then
        (failure ''No service account configured. Run in interactive mode to set up a service account.'',
         config, [])
      else
        (case clientFactory deps (service_account_path config) (api_endpoint config) of
           Throws m \<Rightarrow> (thrown ''Unexpected error: '' m, config, [])
         | Resolves client \<Rightarrow>
            (case client_verifyAuth client of
               Throws m \<Rightarrow> (thrown ''Authentication error: '' m, config, [VerifyAuth])
             | Resolves authResult \<Rightarrow>
                (if \<not> truthy (auth_data authResult) then
                   (failure ''Authentication failed.'', config, [VerifyAuth])
                 else if uuid = [] then
                   (failure ''No job UUID specified.'', config, [VerifyAuth])
                 else
                   (let config1 =
                          (if uuid \<in> set (recent_uuids config) then config
                           else config\<lparr>recent_uuids :=
                                  uuid # take 9 (filter (\<lambda>u. u \<noteq> uuid) (recent_uuids config))\<rparr>);
                        saved =
                          (if uuid \<in> set (recent_uuids config) then []
                           else [SaveConfig config1]);
                        saveThrows =
                          (if uuid \<in> set (recent_uuids config) then None
                           else (case saveConfig deps config1 of
                                   Throws m \<Rightarrow> Some m
                                 | Resolves u \<Rightarrow> None))
                    in (case saveThrows of
                          Some m \<Rightarrow>
                            (thrown ''Unexpected error: '' m, config1, VerifyAuth # saved)
                        | None \<Rightarrow>
                           (let pollInterval1 = optionNumber (pollInterval options) 3000;
                                maxAttempts1 = optionNumber (maxAttempts options) 10;
                                a1 = (if wait options then pollInterval1 else Num 0);
                                a2 = (if wait options then maxAttempts1 else Num 1);
                                trace = VerifyAuth # saved @ [GetResults uuid a1 a2]
                            in (case client_getResults client uuid a1 a2 of
                                  Throws m \<Rightarrow>
                                    (thrown ''Failed to retrieve results: '' m, config1, trace)
                                | Resolves result \<Rightarrow>
                                   (if truthy (jr_results result) then
                                      (\<lparr>success = True,
                                        message = ''Results retrieved successfully!'',
                                        exitCode = 0, error = JUndefined,
                                        status = jr_status result,
                                        results = jr_results result\<rparr>, config1, trace)
                                    else if truthy (jr_error result) then
                                      (\<lparr>success = False,
                                        message = ''Analysis error occurred during processing.'',
                                        exitCode = 1, error = jr_error result,
                                        status = jr_status result,
                                        results = JUndefined\<rparr>, config1, trace)
                                    else
                                      (\<lparr>success = True,
                                        message = ''No results available yet. The job may still be processing.'',
                                        exitCode = 0, error = JUndefined,
                                        status = jr_status result,
                                        results = JUndefined\<rparr>, config1, trace))))))))))"

section \<open>commands/analyze\<close>

record analyze_options =
  workflow :: "string option"

text \<open>\<open>AnalyzeCommandResult\<close>; its field \<open>uuid\<close> is \<open>result_uuid\<close> here.\<close>

record analyze_command_result = "analysis_job_result data_result" +
  result_uuid :: "string option"

text \<open>Truthiness of an optional string: present and not empty.\<close>

fun truthyStr :: "string option \<Rightarrow> bool" where
  "truthyStr None = False"
| "truthyStr (Some s) = (s \<noteq> [])"

definition analyzeFailure :: "string \<Rightarrow> analyze_command_result" where
  "analyzeFailure m = \<lparr>success = False, message = m, exitCode = 1, error = JUndefined,
                        data = None, result_uuid = None\<rparr>"

definition analyzeThrown :: "string \<Rightarrow> string \<Rightarrow> analyze_command_result" where
  "analyzeThrown prefix m = \<lparr>success = False, message = prefix @ m, exitCode = 1,
                              error = JError m, data = None, result_uuid = None\<rparr>"

definition analyzeDocumentCore ::
  "string \<Rightarrow> analyze_options \<Rightarrow> cli_config \<Rightarrow> dependencies
     \<Rightarrow> analyze_command_result \<times> call list" where
  "analyzeDocumentCore filePath options config deps =
     (if service_account_path config = [] then
        (analyzeFailure ''No service account configured. Run in interactive mode to set up a service account.'',
         [])
      else if \<not> existsSync deps filePath then
        (analyzeFailure (''File not found: '' @ filePath), [])
      else
        (case clientFactory deps (service_account_path config) (api_endpoint config) of
           Throws m \<Rightarrow> (analyzeThrown ''Unexpected error: '' m, [])
         | Resolves client \<Rightarrow>
            (case client_verifyAuth client of
               Throws m \<Rightarrow> (analyzeThrown ''Authentication error: '' m, [VerifyAuth])
             | Resolves authResult \<Rightarrow>
                (if \<not> truthy (auth_data authResult) then
                   (analyzeFailure ''Authentication failed.'', [VerifyAuth])
                 else if \<not> truthyStr (workflow options) then
                   (analyzeFailure ''No workflow specified. Use --workflow option to specify analysis workflow.'',
                    [VerifyAuth])
                 else
                   (let workflowKey = the (workflow options) in
                    (case readFileSync deps filePath of
                       Throws m \<Rightarrow> (analyzeThrown ''Unexpected error: '' m, [VerifyAuth])
                     | Resolves fileData \<Rightarrow>
                        (let trace = [VerifyAuth,
                                      AnalyzeDocument fileData (basename deps filePath) workflowKey]
                         in (case client_analyzeDocument client fileData (basename deps filePath)
                                    workflowKey of
                               Throws m \<Rightarrow>
                                 (analyzeThrown ''Error submitting document: '' m, trace)
                             | Resolves result \<Rightarrow>
                                (if truthyStr (job_uuid result) then
                                   (\<lparr>success = True,
                                     message = ''Document submitted successfully!'',
                                     exitCode = 0, error = JUndefined,
                                     data = Some result, result_uuid = job_uuid result\<rparr>, trace)
                                 else
                                   (\<lparr>success = False,
                                     message = ''Document submitted but no UUID was returned.'',
                                     exitCode = 1, error = JUndefined,
                                     data = Some result, result_uuid = None\<rparr>, trace))))))))))"

text \<open>
  The CLI wrapper \<open>analyzeDocument\<close>: it loads the configuration, runs the core with
  the default dependencies, and on success records the job id and saves the
  configuration. The model leaves the console output out and returns the configuration
  as the run leaves it, the calls made, and how the run ends: \<open>process.exit\<close> with a
  nonzero code, a normal return, or the rejection when \<open>saveConfig\<close> throws (the wrapper
  has no \<open>catch\<close>).
\<close>

datatype ending = Returns | Exits int | Rejects string

definition analyzeDocument ::
  "string \<Rightarrow> analyze_options \<Rightarrow> dependencies \<Rightarrow> cli_config \<times> call list \<times> ending" where
  "analyzeDocument filePath options deps =
     (let config = loadConfig deps;
          run = analyzeDocumentCore filePath options config deps;
          result = fst run;
          trace = snd run;
          finish = (if exitCode result \<noteq> 0 then Exits (exitCode result) else Returns)
      in if success result \<and> truthyStr (result_uuid result) then
           (let u = the (result_uuid result);
                config1 = config\<lparr>recent_uuids :=
                            u # take 9 (filter (\<lambda>v. v \<noteq> u) (recent_uuids config))\<rparr>
            in (case saveConfig deps config1 of
                  Throws m \<Rightarrow> (config1, trace @ [SaveConfig config1], Rejects m)
                | Resolves x \<Rightarrow> (config1, trace @ [SaveConfig config1], finish)))
         else (config, trace, finish))"

section \<open>interactive-core\<close>

text \<open>
  \<open>getWorkflowsCore\<close>. \<open>now\<close> is the value of \<open>Date.now()\<close>. An argument
  \<open>cachedWorkflows\<close> that is \<open>undefined\<close> takes the parameter's default \<open>null\<close>.
\<close>

definition getWorkflowsCore ::
  "client option \<Rightarrow> bool \<Rightarrow> jsval \<Rightarrow> int \<Rightarrow> int \<Rightarrow> bool \<Rightarrow> int
     \<Rightarrow> jsval data_result \<times> call list" where
  "getWorkflowsCore client forceRefresh cachedWorkflows0 workflowsCachedAt workflowCacheTtl
       debugMode now =
     (case client of
        None \<Rightarrow> (plain False ''Client not initialized'' 1, [])
      | Some c \<Rightarrow>
         (let cachedWorkflows =
                (if cachedWorkflows0 = JUndefined then JNull else cachedWorkflows0);
              shouldFetchFromApi =
                (forceRefresh \<or> cachedWorkflows = JNull \<or>
                 now - workflowsCachedAt > workflowCacheTtl * 1000)
          in if shouldFetchFromApi then
               (case client_getWorkflows c of
                  Throws m \<Rightarrow>
                    (\<lparr>success = False, message = ''Error fetching workflows: '' @ m,
                      exitCode = 1, error = JError m, data = None\<rparr>, [GetWorkflows])
                | Resolves workflows \<Rightarrow>
                   (if truthy (optprop workflows ''success'') then
                      (\<lparr>success = True, message = ''Workflows fetched successfully'',
                        exitCode = 0, error = JUndefined,
                        data = Some (JObj [(''workflows'', workflows),
                                           (''cachedAt'', JNum now)])\<rparr>, [GetWorkflows])
                    else
                      (\<lparr>success = False, message = ''Failed to fetch workflows'',
                        exitCode = 1, error = JUndefined,
                        data = Some workflows\<rparr>, [GetWorkflows])))
             else
               (\<lparr>success = True, message = ''Using cached workflows'', exitCode = 0,
                 error = JUndefined,
                 data = Some (JObj [(''workflows'', cachedWorkflows),
                                    (''cachedAt'', JNum workflowsCachedAt),
                                    (''fromCache'', JBool True)])\<rparr>, [])))"

text \<open>
  \<open>getResultsCore\<close> of interactive-core (the name is taken by the one of
  commands/results above). It calls \<open>client.getResults(uuid)\<close> with one argument.
\<close>

definition interactive_getResultsCore ::
  "client option \<Rightarrow> string \<Rightarrow> job_results_response data_result \<times> call list" where
  "interactive_getResultsCore client uuid =
     (case client of
        None \<Rightarrow> (plain False ''Client not initialized'' 1, [])
      | Some c \<Rightarrow>
         (case client_getResults c uuid Omitted Omitted of
            Throws m \<Rightarrow>
              (\<lparr>success = False, message = ''Failed to retrieve results: '' @ m,
                exitCode = 1, error = JError m, data = None\<rparr>,
               [GetResults uuid Omitted Omitted])
          | Resolves result \<Rightarrow>
             (if truthy (jr_results result) then
                (\<lparr>success = True, message = ''Results retrieved successfully'',
                  exitCode = 0, error = JUndefined, data = Some result\<rparr>,
                 [GetResults uuid Omitted Omitted])
              else if truthy (jr_error result) then
                (\<lparr>success = False, message = ''Analysis error'',
                  exitCode = 1, error = jr_error result, data = Some result\<rparr>,
                 [GetResults uuid Omitted Omitted])
              else
                (\<lparr>success = False,
                  message = ''No results available yet. The job may still be processing.'',
                  exitCode = 0, error = JUndefined, data = Some result\<rparr>,
                 [GetResults uuid Omitted Omitted]))))"

section \<open>The interactive session's workflow cache\<close>

text \<open>
  The fields of the \<open>VisionFiCLI\<close> object that \<open>getCachedWorkflows\<close> reads and writes.
  The cache starts as \<open>null\<close>, timestamp 0.
\<close>

record session =
  s_client :: "client option"
  s_cachedWorkflows :: jsval
  s_workflowsCachedAt :: int
  s_workflowCacheTtl :: int
  s_config :: cli_config

text \<open>\<open>result.data?.k\<close>\<close>

definition dataProp :: "jsval option \<Rightarrow> string \<Rightarrow> jsval" where
  "dataProp d k = (case d of None \<Rightarrow> JUndefined | Some v \<Rightarrow> optprop v k)"

text \<open>
  \<open>getCachedWorkflows\<close> returns \<open>this._cachedWorkflows\<close> after the update; the model
  adds the session as the call leaves it and the calls made. The timestamp field is a
  number: \<open>data.cachedAt\<close> of a successful fetch is always \<open>JNum now\<close>, and the model
  keeps the old timestamp for any other shape, which no run produces.
\<close>

definition getCachedWorkflows :: "session \<Rightarrow> bool \<Rightarrow> int \<Rightarrow> jsval \<times> session \<times> call list" where
  "getCachedWorkflows this forceRefresh now =
     (let run = getWorkflowsCore (s_client this) forceRefresh (s_cachedWorkflows this)
                  (s_workflowsCachedAt this) (s_workflowCacheTtl this)
                  (debug_mode (s_config this)) now;
          result = fst run;
          this1 =
            (if success result then
               (if \<not> truthy (dataProp (data result) ''fromCache'') then
                  this\<lparr>s_cachedWorkflows := dataProp (data result) ''workflows'',
                       s_workflowsCachedAt :=
                         (case dataProp (data result) ''cachedAt'' of
                            JNum n \<Rightarrow> n
                          | v \<Rightarrow> s_workflowsCachedAt this)\<rparr>
                else this)
             else this)
      in (s_cachedWorkflows this1, this1, snd run))"

section \<open>Stub environments\<close>

text \<open>
  Clients and dependencies with fixed answers, in the manner of the mocks of
  tests/commands: the value verifyAuth resolves to, what getResults settles to, and what
  getWorkflows settles to.
\<close>

definition stubClient :: "jsval \<Rightarrow> job_results_response outcome \<Rightarrow> jsval outcome \<Rightarrow> client" where
  "stubClient authData jobOutcome workflowsOutcome =
     \<lparr>client_verifyAuth = Resolves (AuthVerificationResult authData),
      client_getResults = (\<lambda>u p m. jobOutcome),
      client_analyzeDocument = (\<lambda>d n t. Resolves (AnalysisJobResult (Some ''job-1'') [])),
      client_getWorkflows = workflowsOutcome\<rparr>"

definition stubDeps :: "client \<Rightarrow> cli_config \<Rightarrow> dependencies" where
  "stubDeps c cfg =
     \<lparr>clientFactory = (\<lambda>p e. Resolves c), loadConfig = cfg,
      saveConfig = (\<lambda>c. Resolves ()), existsSync = (\<lambda>p. True),
      readFileSync = (\<lambda>p. Resolves ''%PDF''), basename = (\<lambda>p. p)\<rparr>"

definition exampleConfig :: cli_config where
  "exampleConfig =
     \<lparr>service_account_path = ''/keys/sa.json'',
      api_endpoint = ''https://platform.visionfi.ai/api/v1'',
      recent_uuids = [''a'', ''b''], debug_mode = False, test_mode = False,
      workflow_cache_ttl = 1200\<rparr>"

definition defaultOptions :: results_options where
  "defaultOptions = \<lparr>wait = False, pollInterval = NoOpt, maxAttempts = NoOpt\<rparr>"

definition resultsReady :: job_results_response where
  "resultsReady = JobResultsResponse (Some ''completed'') (JObj [(''total'', JNum 3)]) JUndefined"

definition analysisFailed :: job_results_response where
  "analysisFailed =
     JobResultsResponse (Some ''failed'') JUndefined (JObj [(''code'', JStr ''E42'')])"

definition stillProcessing :: job_results_response where
  "stillProcessing = JobResultsResponse (Some ''processing'') JUndefined JUndefined"

definition workflowList :: jsval where
  "workflowList =
     JObj [(''success'', JBool True),
           (''data'', JArr [JObj [(''workflow_key'', JStr ''invoice'')]])]"

lemmas stubs = stubDeps_def stubClient_def exampleConfig_def defaultOptions_def
  resultsReady_def analysisFailed_def stillProcessing_def workflowList_def

text \<open>The record \<open>getWorkflowsCore\<close> returns when it answers from the cache.\<close>

definition cachedResult :: "jsval \<Rightarrow> int \<Rightarrow> jsval data_result" where
  "cachedResult cached cachedAt =
     \<lparr>success = True, message = ''Using cached workflows'', exitCode = 0, error = JUndefined,
       data = Some (JObj [(''workflows'', cached), (''cachedAt'', JNum cachedAt),
                          (''fromCache'', JBool True)])\<rparr>"

text \<open>A session holding a workflow list cached at 1700000000000 ms, TTL 300 s.\<close>

definition cachedSession :: "jsval outcome \<Rightarrow> session" where
  "cachedSession workflowsOutcome =
     \<lparr>s_client = Some (stubClient (JBool True) (Resolves stillProcessing) workflowsOutcome),
      s_cachedWorkflows = workflowList, s_workflowsCachedAt = 1700000000000,
      s_workflowCacheTtl = 300, s_config = exampleConfig\<rparr>"

text \<open>A configuration whose recent-jobs list is full: ten distinct ids.\<close>

definition fullConfig :: cli_config where
  "fullConfig = exampleConfig\<lparr>recent_uuids :=
      [''j1'', ''j2'', ''j3'', ''j4'', ''j5'', ''j6'', ''j7'', ''j8'', ''j9'', ''j10'']\<rparr>"

definition okClient :: client where
  "okClient = stubClient (JBool True) (Resolves stillProcessing) (Throws ''down'')"

section \<open>Reference notions for the TTL parser\<close>

text \<open>
  What the parser is compared with. Decimal numerals and the number they denote. The
  unit of a normalized input after the words of the specification: suffix \<open>s\<close> means
  seconds, \<open>m\<close> minutes of 60 seconds, \<open>h\<close> hours of 3600 seconds, no suffix seconds;
  and the part of the input that is read as a number. The records that
  \<open>parseWorkflowCacheTtlCore\<close> returns: for a rejected input, for an exact number of
  seconds, and for a number of seconds of \<open>2^53\<close> or more.
\<close>

definition isDecimalDigit :: "char \<Rightarrow> bool" where
  "isDecimalDigit c = (c \<in> set ''0123456789'')"

definition decimalValue :: "string \<Rightarrow> int" where
  "decimalValue ds = foldl (\<lambda>acc c. 10 * acc + (int (of_char c) - 48)) 0 ds"

definition ttlUnit :: "string \<Rightarrow> int" where
  "ttlUnit t =
     (if t \<noteq> [] \<and> last t = CHR ''s'' then 1
      else if t \<noteq> [] \<and> last t = CHR ''m'' then 60
      else if t \<noteq> [] \<and> last t = CHR ''h'' then 3600
      else 1)"

definition ttlBody :: "string \<Rightarrow> string" where
  "ttlBody t =
     (if t \<noteq> [] \<and> (last t = CHR ''s'' \<or> last t = CHR ''m'' \<or> last t = CHR ''h'')
      then butlast t else t)"

definition invalidTtl :: "jsval data_result" where
  "invalidTtl = plain False ''Invalid cache TTL. Must be a positive number.'' 1"

definition parsedOk :: "int \<Rightarrow> jsval data_result" where
  "parsedOk n =
     \<lparr>success = True, message = ''Cache TTL parsed successfully'', exitCode = 0,
       error = JUndefined,
       data = Some (JObj [(''seconds'', JNum n),
                          (''formattedString'', formattedMessage (Exact n))])\<rparr>"

definition parsedLarge :: "jsval data_result" where
  "parsedLarge =
     \<lparr>success = True, message = ''Cache TTL parsed successfully'', exitCode = 0,
       error = JUndefined,
       data = Some (JObj [(''seconds'', JLarge False), (''formattedString'', JLargeText)])\<rparr>"

section \<open>The TTL parser on inputs with trailing characters\<close>

text \<open>
  C10. \<open>parseWorkflowCacheTtlCore\<close> accepts digits followed by other characters:
  \<open>90x\<close> has no unit suffix and \<open>parseInt\<close> reads its leading digits, giving 90
  seconds; \<open>10ms\<close> ends with \<open>s\<close>, the rest \<open>10m\<close> is read by \<open>parseInt\<close> as 10,
  giving 10 seconds. Both succeed instead of failing as malformed.
\<close>

theorem parseWorkflowCacheTtlCore_trailing_characters:
  "parseWorkflowCacheTtlCore ''90x'' =
     \<lparr>success = True, message = ''Cache TTL parsed successfully'', exitCode = 0,
       error = JUndefined,
       data = Some (JObj [(''seconds'', JNum 90), (''formattedString'', JStr ''1 minute'')])\<rparr>
   \<and> parseWorkflowCacheTtlCore ''10ms'' =
     \<lparr>success = True, message = ''Cache TTL parsed successfully'', exitCode = 0,
       error = JUndefined,
       data = Some (JObj [(''seconds'', JNum 10), (''formattedString'', JStr ''10 seconds'')])\<rparr>"
  by code_simp

section \<open>Poll outcome mapping\<close>

lemma getResultsCore_mapping_aux:
  assumes run: "getResultsCore uuid options config deps = (res, config', tr)"
    and fac: "clientFactory deps (service_account_path config) (api_endpoint config) = Resolves c"
    and called: "GetResults u p m \<in> set tr"
    and resp: "client_getResults c u p m = Resolves r"
  shows "(truthy (jr_results r) \<longrightarrow>
            success res \<and> exitCode res = 0 \<and> message res = ''Results retrieved successfully!'')
       \<and> (\<not> truthy (jr_results r) \<and> truthy (jr_error r) \<longrightarrow>
            \<not> success res \<and> exitCode res = 1 \<and>
            message res = ''Analysis error occurred during processing.'')
       \<and> (\<not> truthy (jr_results r) \<and> \<not> truthy (jr_error r) \<longrightarrow>
            success res \<and> exitCode res = 0 \<and>
            message res = ''No results available yet. The job may still be processing.'')"
  using assms
  by (auto simp: getResultsCore_def Let_def failure_def thrown_def
           split: if_splits outcome.splits option.splits)

text \<open>
  C1. Take any run of \<open>getResultsCore\<close> (commands/results) whose client is \<open>c\<close> and in
  which the remote call \<open>getResults(u, p, m)\<close> was made and resolved to the response
  \<open>r\<close>. If \<open>r.results\<close> is populated (truthy), the record has success, exit code 0 and
  the message "Results retrieved successfully!"; if \<open>r.error\<close> is populated and
  \<open>r.results\<close> is not, it has failure, exit code 1 and "Analysis error occurred during
  processing."; if neither is populated, it has success, exit code 0 and "No results
  available yet. The job may still be processing.".
\<close>

theorem getResultsCore_outcome_mapping:
  assumes res: "res = fst (getResultsCore uuid options config deps)"
    and tr: "tr = snd (snd (getResultsCore uuid options config deps))"
    and fac: "clientFactory deps (service_account_path config) (api_endpoint config) = Resolves c"
    and called: "GetResults u p m \<in> set tr"
    and resp: "client_getResults c u p m = Resolves r"
  shows "(truthy (jr_results r) \<longrightarrow>
            success res \<and> exitCode res = 0 \<and> message res = ''Results retrieved successfully!'')
       \<and> (\<not> truthy (jr_results r) \<and> truthy (jr_error r) \<longrightarrow>
            \<not> success res \<and> exitCode res = 1 \<and>
            message res = ''Analysis error occurred during processing.'')
       \<and> (\<not> truthy (jr_results r) \<and> \<not> truthy (jr_error r) \<longrightarrow>
            success res \<and> exitCode res = 0 \<and>
            message res = ''No results available yet. The job may still be processing.'')"
proof -
  have "getResultsCore uuid options config deps =
          (res, fst (snd (getResultsCore uuid options config deps)), tr)"
    by (simp add: res tr)
  from getResultsCore_mapping_aux [OF this fac called resp] show ?thesis
    by simp
qed

theorem getResultsCore_outcome_mapping_witness:
  "(let res = fst (getResultsCore ''job-7'' defaultOptions exampleConfig
                 (stubDeps (stubClient (JBool True) (Resolves resultsReady) (Throws ''down''))
                    exampleConfig))
    in success res \<and> exitCode res = 0 \<and> message res = ''Results retrieved successfully!'')
 \<and> (let res = fst (getResultsCore ''job-7'' defaultOptions exampleConfig
                 (stubDeps (stubClient (JBool True) (Resolves analysisFailed) (Throws ''down''))
                    exampleConfig))
    in \<not> success res \<and> exitCode res = 1 \<and>
       message res = ''Analysis error occurred during processing.'')
 \<and> (let res = fst (getResultsCore ''job-7'' defaultOptions exampleConfig
                 (stubDeps (stubClient (JBool True) (Resolves stillProcessing) (Throws ''down''))
                    exampleConfig))
    in success res \<and> exitCode res = 0 \<and>
       message res = ''No results available yet. The job may still be processing.'')"
proof -
  have called: "GetResults ''job-7'' (Num 0) (Num 1) \<in>
      set (snd (snd (getResultsCore ''job-7'' defaultOptions exampleConfig
                 (stubDeps (stubClient (JBool True) (Resolves r) (Throws ''down''))
                    exampleConfig))))" for r
    by (simp add: getResultsCore_def stubs Let_def)
  have fac: "clientFactory
       (stubDeps (stubClient (JBool True) (Resolves r) (Throws ''down'')) exampleConfig)
       (service_account_path exampleConfig) (api_endpoint exampleConfig)
     = Resolves (stubClient (JBool True) (Resolves r) (Throws ''down''))" for r
    by (simp add: stubs)
  have resp: "client_getResults (stubClient (JBool True) (Resolves r) (Throws ''down''))
       ''job-7'' (Num 0) (Num 1) = Resolves r" for r
    by (simp add: stubs)
  note th = getResultsCore_outcome_mapping [OF refl refl fac called resp]
  have t: "truthy (jr_results resultsReady)" "\<not> truthy (jr_results analysisFailed)"
     "truthy (jr_error analysisFailed)" "\<not> truthy (jr_results stillProcessing)"
     "\<not> truthy (jr_error stillProcessing)"
    by (simp_all add: resultsReady_def analysisFailed_def stillProcessing_def)
  show ?thesis
    using th [of resultsReady] th [of analysisFailed] th [of stillProcessing] t
    unfolding Let_def by blast
qed

section \<open>Workflow cache\<close>

lemma getWorkflowsCore_trace:
  "snd (getWorkflowsCore (Some c) forceRefresh cached cachedAt ttl dbg now) =
     (if forceRefresh \<or> cached = JNull \<or> cached = JUndefined \<or> now - cachedAt > ttl * 1000
      then [GetWorkflows] else [])"
  by (simp add: getWorkflowsCore_def Let_def split: outcome.splits)

lemma getWorkflowsCore_cached:
  "\<not> forceRefresh \<Longrightarrow> cached \<noteq> JNull \<Longrightarrow> cached \<noteq> JUndefined \<Longrightarrow>
   \<not> now - cachedAt > ttl * 1000 \<Longrightarrow>
   getWorkflowsCore (Some c) forceRefresh cached cachedAt ttl dbg now
     = (cachedResult cached cachedAt, [])"
  by (simp add: getWorkflowsCore_def Let_def cachedResult_def)

lemma getWorkflowsCore_failure:
  assumes "(\<exists>m. client_getWorkflows c = Throws m) \<or>
           (\<exists>w. client_getWorkflows c = Resolves w \<and> \<not> truthy (optprop w ''success''))"
  shows "getWorkflowsCore (Some c) forceRefresh cached cachedAt ttl dbg now =
    (if forceRefresh \<or> cached = JNull \<or> cached = JUndefined \<or> now - cachedAt > ttl * 1000
     then (case client_getWorkflows c of
             Throws m \<Rightarrow>
               (\<lparr>success = False, message = ''Error fetching workflows: '' @ m,
                 exitCode = 1, error = JError m, data = None\<rparr>, [GetWorkflows])
           | Resolves w \<Rightarrow>
               (\<lparr>success = False, message = ''Failed to fetch workflows'',
                 exitCode = 1, error = JUndefined, data = Some w\<rparr>, [GetWorkflows]))
     else (cachedResult cached cachedAt, []))"
  using assms by (auto simp: getWorkflowsCore_def Let_def cachedResult_def)

text \<open>
  C2. With an initialized client, \<open>getWorkflowsCore\<close> calls the remote \<open>getWorkflows\<close>
  if and only if \<open>forceRefresh\<close> holds, or there is no cached entry (\<open>cachedWorkflows\<close> is
  \<open>null\<close>, which is also what an \<open>undefined\<close> argument becomes), or
  \<open>now - cachedAt > ttlSeconds * 1000\<close>; otherwise it returns the stored entry, marked
  \<open>fromCache\<close>, and makes no call. With a TTL of 300 s and no force refresh, an entry
  aged 100000 ms is answered from the cache and one aged 400000 ms is fetched.
\<close>

theorem getWorkflowsCore_fetch_rule:
  "(GetWorkflows \<in> set (snd (getWorkflowsCore (Some c) forceRefresh cached cachedAt ttl dbg now)))
     = (forceRefresh \<or> cached = JNull \<or> cached = JUndefined \<or> now - cachedAt > ttl * 1000)
   \<and> (\<not> (forceRefresh \<or> cached = JNull \<or> cached = JUndefined \<or>
          now - cachedAt > ttl * 1000) \<longrightarrow>
        getWorkflowsCore (Some c) forceRefresh cached cachedAt ttl dbg now
          = (cachedResult cached cachedAt, []))
   \<and> (cached \<noteq> JNull \<and> cached \<noteq> JUndefined \<longrightarrow>
        getWorkflowsCore (Some c) False cached (now - 100000) 300 dbg now
          = (cachedResult cached (now - 100000), [])
        \<and> snd (getWorkflowsCore (Some c) False cached (now - 400000) 300 dbg now)
          = [GetWorkflows])"
  by (simp add: getWorkflowsCore_trace getWorkflowsCore_cached)

theorem getWorkflowsCore_fetch_rule_witness:
  "GetWorkflows \<notin> set (snd (getWorkflowsCore
        (Some (stubClient (JBool True) (Throws ''x'') (Resolves workflowList)))
        False workflowList 1700000000000 300 False 1700000100000))
   \<and> getWorkflowsCore (Some (stubClient (JBool True) (Throws ''x'') (Resolves workflowList)))
        False workflowList 1700000000000 300 False 1700000100000
      = (cachedResult workflowList 1700000000000, [])
   \<and> snd (getWorkflowsCore (Some (stubClient (JBool True) (Throws ''x'') (Resolves workflowList)))
        False workflowList 1700000000000 300 False 1700000400000) = [GetWorkflows]"
  using getWorkflowsCore_fetch_rule
          [of "stubClient (JBool True) (Throws ''x'') (Resolves workflowList)" False workflowList
              1700000000000 300 False 1700000100000]
        getWorkflowsCore_fetch_rule
          [of "stubClient (JBool True) (Throws ''x'') (Resolves workflowList)" False workflowList
              1700000000000 300 False 1700000400000]
  by (simp add: workflowList_def)

text \<open>
  C9, as stated, fails: with a TTL of 0, no force refresh and an entry cached in the same
  millisecond (\<open>now = cachedAt\<close>), \<open>now - cachedAt > 0\<close> is false and the entry is
  answered from the cache with no remote call.
\<close>

theorem getWorkflowsCore_zero_ttl_same_millisecond:
  "getWorkflowsCore (Some (stubClient (JBool True) (Throws ''x'') (Resolves workflowList)))
        False workflowList 1700000000000 0 False 1700000000000
     = (cachedResult workflowList 1700000000000, [])"
  by (simp add: getWorkflowsCore_cached workflowList_def)

text \<open>
  C9, amended. With a TTL of 0, no force refresh and a cached entry present,
  \<open>getWorkflowsCore\<close> fetches exactly when the clock has moved past the entry's
  timestamp (\<open>cachedAt < now\<close>), however little.
\<close>

theorem getWorkflowsCore_zero_ttl:
  "cached \<noteq> JNull \<and> cached \<noteq> JUndefined \<longrightarrow>
     (GetWorkflows \<in> set (snd (getWorkflowsCore (Some c) False cached cachedAt 0 dbg now)))
       = (cachedAt < now)"
  by (simp add: getWorkflowsCore_trace)

theorem getWorkflowsCore_zero_ttl_witness:
  "GetWorkflows \<in> set (snd (getWorkflowsCore
        (Some (stubClient (JBool True) (Throws ''x'') (Resolves workflowList)))
        False workflowList 1700000000000 0 False 1700000000001))"
  using getWorkflowsCore_zero_ttl
          [where cached = workflowList and cachedAt = 1700000000000 and now = 1700000000001]
  by (simp add: workflowList_def)

text \<open>
  C6. When the remote \<open>getWorkflows\<close> of the session's client fails (it throws, or it
  resolves to a value whose \<open>success\<close> is not truthy), \<open>getCachedWorkflows\<close> leaves the
  session as it was, cached workflows and timestamp included, and returns the
  previously cached value; whenever the remote call was made, the record of
  \<open>getWorkflowsCore\<close> reports failure with exit code 1.
\<close>

theorem getCachedWorkflows_fetch_failure:
  assumes cl: "s_client this = Some c"
    and fails: "(\<exists>m. client_getWorkflows c = Throws m) \<or>
           (\<exists>w. client_getWorkflows c = Resolves w \<and> \<not> truthy (optprop w ''success''))"
  shows "fst (snd (getCachedWorkflows this forceRefresh now)) = this
       \<and> fst (getCachedWorkflows this forceRefresh now) = s_cachedWorkflows this
       \<and> (GetWorkflows \<in> set (snd (snd (getCachedWorkflows this forceRefresh now))) \<longrightarrow>
            \<not> success (fst (getWorkflowsCore (s_client this) forceRefresh
                  (s_cachedWorkflows this) (s_workflowsCachedAt this) (s_workflowCacheTtl this)
                  (debug_mode (s_config this)) now))
          \<and> exitCode (fst (getWorkflowsCore (s_client this) forceRefresh
                  (s_cachedWorkflows this) (s_workflowsCachedAt this) (s_workflowCacheTtl this)
                  (debug_mode (s_config this)) now)) = 1)"
  using fails
  by (auto simp: getCachedWorkflows_def cl getWorkflowsCore_failure [OF fails] Let_def
        cachedResult_def dataProp_def)

theorem getCachedWorkflows_fetch_failure_witness:
  "fst (snd (getCachedWorkflows (cachedSession (Throws ''network down'')) True 1700000500000))
     = cachedSession (Throws ''network down'')
   \<and> fst (getCachedWorkflows (cachedSession (Throws ''network down'')) True 1700000500000)
     = workflowList
   \<and> fst (snd (getCachedWorkflows
        (cachedSession (Resolves (JObj [(''success'', JBool False)]))) False 1700000500000))
     = cachedSession (Resolves (JObj [(''success'', JBool False)]))
   \<and> fst (getCachedWorkflows
        (cachedSession (Resolves (JObj [(''success'', JBool False)]))) False 1700000500000)
     = workflowList"
proof -
  have a: "s_client (cachedSession w) = Some (stubClient (JBool True) (Resolves stillProcessing) w)"
    for w by (simp add: cachedSession_def)
  have b: "client_getWorkflows (stubClient (JBool True) (Resolves stillProcessing) w) = w" for w
    by (simp add: stubClient_def)
  have c: "s_cachedWorkflows (cachedSession w) = workflowList" for w
    by (simp add: cachedSession_def)
  show ?thesis
    using getCachedWorkflows_fetch_failure
            [where this = "cachedSession (Throws ''network down'')"
               and forceRefresh = True and now = 1700000500000, OF a]
          getCachedWorkflows_fetch_failure
            [where this = "cachedSession (Resolves (JObj [(''success'', JBool False)]))"
               and forceRefresh = False and now = 1700000500000, OF a]
    by (simp add: b c)
qed

section \<open>The record of a pending job in interactive-core\<close>

text \<open>
  The other core operations keep \<open>success\<close> and \<open>exitCode\<close> in step: every record
  they return has \<open>success = true\<close> exactly when \<open>exitCode = 0\<close>.
\<close>

lemma authenticateWithApi_consistent:
  "success (fst (authenticateWithApi config deps))
     = (exitCode (fst (authenticateWithApi config deps)) = 0)"
  by (simp add: authenticateWithApi_def plain_def split: outcome.splits)

lemma getWorkflowsCore_consistent:
  "success (fst (getWorkflowsCore client forceRefresh cached cachedAt ttl dbg now))
     = (exitCode (fst (getWorkflowsCore client forceRefresh cached cachedAt ttl dbg now)) = 0)"
  by (simp add: getWorkflowsCore_def plain_def Let_def split: option.splits outcome.splits)

lemma analyzeDocumentCore_consistent:
  "success (fst (analyzeDocumentCore filePath aopts config deps))
     = (exitCode (fst (analyzeDocumentCore filePath aopts config deps)) = 0)"
  by (simp add: analyzeDocumentCore_def analyzeFailure_def analyzeThrown_def Let_def
        split: outcome.splits)

lemma getResultsCore_consistent:
  "success (fst (getResultsCore uuid options config deps))
     = (exitCode (fst (getResultsCore uuid options config deps)) = 0)"
  by (simp add: getResultsCore_def failure_def thrown_def Let_def
        split: outcome.splits option.splits)

text \<open>
  C3. The \<open>getResultsCore\<close> of interactive-core, on a response with neither results nor
  error (the job is still processing), returns a record with \<open>success = false\<close> and
  \<open>exitCode = 0\<close>: the two fields disagree. The \<open>getResultsCore\<close> of commands/results
  returns \<open>success = true\<close>, \<open>exitCode = 0\<close> for the same response.
\<close>

theorem interactive_getResultsCore_pending:
  "interactive_getResultsCore
      (Some (stubClient (JBool True) (Resolves stillProcessing) (Throws ''down''))) ''job-7''
   = (\<lparr>success = False,
        message = ''No results available yet. The job may still be processing.'',
        exitCode = 0, error = JUndefined, data = Some stillProcessing\<rparr>,
      [GetResults ''job-7'' Omitted Omitted])"
  by (simp add: interactive_getResultsCore_def stubClient_def stillProcessing_def)

section \<open>Precondition failures and the calls they allow\<close>

lemma getResultsCore_without_uuid:
  "getResultsCore [] options config deps =
     (if service_account_path config = [] then
        (failure ''No service account configured. Run in interactive mode to set up a service account.'',
         config, [])
      else
        (case clientFactory deps (service_account_path config) (api_endpoint config) of
           Throws m \<Rightarrow> (thrown ''Unexpected error: '' m, config, [])
         | Resolves client \<Rightarrow>
            (case client_verifyAuth client of
               Throws m \<Rightarrow> (thrown ''Authentication error: '' m, config, [VerifyAuth])
             | Resolves authResult \<Rightarrow>
                (if \<not> truthy (auth_data authResult) then
                   (failure ''Authentication failed.'', config, [VerifyAuth])
                 else (failure ''No job UUID specified.'', config, [VerifyAuth])))))"
  by (simp add: getResultsCore_def split: outcome.splits)

text \<open>
  C5, amended. For every call of \<open>getResultsCore\<close> (commands/results) with an empty job
  UUID and a configured service account: the record has \<open>success = false\<close> and exit
  code 1, no \<open>getResults\<close> call is made, and once the client is constructed the only
  call is \<open>verifyAuth\<close>; when \<open>verifyAuth\<close> resolves to truthy data, the message is
  "No job UUID specified.".
\<close>

theorem getResultsCore_empty_uuid:
  "service_account_path config \<noteq> [] \<longrightarrow>
     \<not> success (fst (getResultsCore [] options config deps))
   \<and> exitCode (fst (getResultsCore [] options config deps)) = 1
   \<and> (\<forall>call \<in> set (snd (snd (getResultsCore [] options config deps))). \<not> isGetResults call)
   \<and> (\<forall>c. clientFactory deps (service_account_path config) (api_endpoint config) = Resolves c
          \<longrightarrow> snd (snd (getResultsCore [] options config deps)) = [VerifyAuth])
   \<and> (\<forall>c a. clientFactory deps (service_account_path config) (api_endpoint config) = Resolves c
            \<and> client_verifyAuth c = Resolves a \<and> truthy (auth_data a)
          \<longrightarrow> message (fst (getResultsCore [] options config deps)) = ''No job UUID specified.'')"
  by (auto simp: getResultsCore_without_uuid failure_def thrown_def split: outcome.splits)

text \<open>
  C5, as stated, fails: with an empty job UUID and a configured service account, a
  \<open>verifyAuth\<close> that resolves to \<open>{data: false}\<close> makes the run stop at the
  authentication check, with the message "Authentication failed.".
\<close>

theorem getResultsCore_empty_uuid_auth_failure:
  "getResultsCore [] defaultOptions exampleConfig
       (stubDeps (stubClient (JBool False) (Resolves stillProcessing) (Throws ''down'')) exampleConfig)
    = (\<lparr>success = False, message = ''Authentication failed.'', exitCode = 1,
        error = JUndefined, status = None, results = JUndefined\<rparr>, exampleConfig, [VerifyAuth])"
  by (simp add: getResultsCore_without_uuid failure_def stubs)

theorem getResultsCore_empty_uuid_witness:
  "message (fst (getResultsCore [] defaultOptions exampleConfig
       (stubDeps okClient exampleConfig)))
      = ''No job UUID specified.''
   \<and> snd (snd (getResultsCore [] defaultOptions exampleConfig
       (stubDeps okClient exampleConfig)))
      = [VerifyAuth]
   \<and> \<not> success (fst (getResultsCore [] defaultOptions exampleConfig
       (stubDeps okClient exampleConfig)))
   \<and> exitCode (fst (getResultsCore [] defaultOptions exampleConfig
       (stubDeps okClient exampleConfig))) = 1"
  using getResultsCore_empty_uuid [of exampleConfig defaultOptions
      "stubDeps okClient exampleConfig"]
  by (simp add: okClient_def stubs)

lemma analyzeDocumentCore_no_account:
  "service_account_path config = [] \<Longrightarrow>
   analyzeDocumentCore filePath aopts config deps =
     (analyzeFailure ''No service account configured. Run in interactive mode to set up a service account.'', [])"
  by (simp add: analyzeDocumentCore_def)

lemma analyzeDocumentCore_no_file:
  "service_account_path config \<noteq> [] \<Longrightarrow> \<not> existsSync deps filePath \<Longrightarrow>
   analyzeDocumentCore filePath aopts config deps =
     (analyzeFailure (''File not found: '' @ filePath), [])"
  by (simp add: analyzeDocumentCore_def)

lemma analyzeDocumentCore_without_workflow:
  "\<not> truthyStr (workflow aopts) \<Longrightarrow>
   \<not> success (fst (analyzeDocumentCore filePath aopts config deps)) \<and>
   exitCode (fst (analyzeDocumentCore filePath aopts config deps)) = 1 \<and>
   set (snd (analyzeDocumentCore filePath aopts config deps)) \<subseteq> {VerifyAuth}"
  by (simp add: analyzeDocumentCore_def analyzeFailure_def analyzeThrown_def split: outcome.splits)

lemma getResultsCore_no_account:
  "service_account_path config = [] \<Longrightarrow>
   getResultsCore uuid options config deps =
     (failure ''No service account configured. Run in interactive mode to set up a service account.'',
      config, [])"
  by (simp add: getResultsCore_def)

text \<open>
  C8, amended. A missing service account (in \<open>getResultsCore\<close> and in
  \<open>analyzeDocumentCore\<close>) and a missing file are detected before any call is made: the
  run makes no call at all. An empty job id and a missing workflow are detected after the
  authentication check: such a run fails without any \<open>getResults\<close> or
  \<open>analyzeDocument\<close> call, and the only call it can make is \<open>verifyAuth\<close>.
\<close>

theorem precondition_failure_calls:
  "(service_account_path config = [] \<longrightarrow>
      snd (snd (getResultsCore uuid options config deps)) = []
    \<and> \<not> success (fst (getResultsCore uuid options config deps))
    \<and> snd (analyzeDocumentCore filePath aopts config deps) = []
    \<and> \<not> success (fst (analyzeDocumentCore filePath aopts config deps)))
  \<and> (\<not> existsSync deps filePath \<longrightarrow>
      snd (analyzeDocumentCore filePath aopts config deps) = []
    \<and> \<not> success (fst (analyzeDocumentCore filePath aopts config deps)))
  \<and> (set (snd (snd (getResultsCore [] options config deps))) \<subseteq> {VerifyAuth}
    \<and> \<not> success (fst (getResultsCore [] options config deps)))
  \<and> (\<not> truthyStr (workflow aopts) \<longrightarrow>
      set (snd (analyzeDocumentCore filePath aopts config deps)) \<subseteq> {VerifyAuth}
    \<and> \<not> success (fst (analyzeDocumentCore filePath aopts config deps)))"
proof -
  have 1: "service_account_path config = [] \<longrightarrow>
      snd (snd (getResultsCore uuid options config deps)) = []
    \<and> \<not> success (fst (getResultsCore uuid options config deps))
    \<and> snd (analyzeDocumentCore filePath aopts config deps) = []
    \<and> \<not> success (fst (analyzeDocumentCore filePath aopts config deps))"
    by (simp add: getResultsCore_no_account analyzeDocumentCore_no_account failure_def
          analyzeFailure_def)
  have 2: "\<not> existsSync deps filePath \<longrightarrow>
      snd (analyzeDocumentCore filePath aopts config deps) = []
    \<and> \<not> success (fst (analyzeDocumentCore filePath aopts config deps))"
    by (cases "service_account_path config = []")
       (simp_all add: analyzeDocumentCore_no_account analyzeDocumentCore_no_file analyzeFailure_def)
  have 3: "set (snd (snd (getResultsCore [] options config deps))) \<subseteq> {VerifyAuth}
    \<and> \<not> success (fst (getResultsCore [] options config deps))"
    by (simp add: getResultsCore_without_uuid failure_def thrown_def split: outcome.splits)
  have 4: "\<not> truthyStr (workflow aopts) \<longrightarrow>
      set (snd (analyzeDocumentCore filePath aopts config deps)) \<subseteq> {VerifyAuth}
    \<and> \<not> success (fst (analyzeDocumentCore filePath aopts config deps))"
    using analyzeDocumentCore_without_workflow by blast
  from 1 2 3 4 show ?thesis by blast
qed

theorem precondition_failure_calls_witness:
  "snd (snd (getResultsCore ''job-7'' defaultOptions (exampleConfig\<lparr>service_account_path := []\<rparr>)
        (stubDeps okClient exampleConfig))) = []
   \<and> snd (analyzeDocumentCore ''invoice.pdf'' \<lparr>workflow = Some ''invoice''\<rparr>
        (exampleConfig\<lparr>service_account_path := []\<rparr>) (stubDeps okClient exampleConfig)) = []
   \<and> snd (analyzeDocumentCore ''missing.pdf'' \<lparr>workflow = Some ''invoice''\<rparr> exampleConfig
        ((stubDeps okClient exampleConfig)\<lparr>existsSync := (\<lambda>p. False)\<rparr>)) = []
   \<and> set (snd (snd (getResultsCore [] defaultOptions exampleConfig
        (stubDeps okClient exampleConfig)))) \<subseteq> {VerifyAuth}
   \<and> set (snd (analyzeDocumentCore ''invoice.pdf'' \<lparr>workflow = None\<rparr> exampleConfig
        (stubDeps okClient exampleConfig))) \<subseteq> {VerifyAuth}"
  using precondition_failure_calls
          [where config = "exampleConfig\<lparr>service_account_path := []\<rparr>"
             and deps = "stubDeps okClient exampleConfig" and uuid = "''job-7''"
             and options = defaultOptions and filePath = "''invoice.pdf''"
             and aopts = "\<lparr>workflow = Some ''invoice''\<rparr>"]
        precondition_failure_calls
          [where config = exampleConfig
             and deps = "(stubDeps okClient exampleConfig)\<lparr>existsSync := (\<lambda>p. False)\<rparr>"
             and filePath = "''missing.pdf''" and aopts = "\<lparr>workflow = Some ''invoice''\<rparr>"]
        precondition_failure_calls
          [where config = exampleConfig and deps = "stubDeps okClient exampleConfig"
             and options = defaultOptions and filePath = "''invoice.pdf''"
             and aopts = "\<lparr>workflow = None\<rparr>"]
  by (simp add: okClient_def stubs)

text \<open>
  C8, as stated, fails: a run of \<open>analyzeDocumentCore\<close> without a workflow, with a
  client that authenticates, calls \<open>verifyAuth\<close> before it reports the missing workflow.
\<close>

theorem analyzeDocumentCore_no_workflow_calls_verifyAuth:
  "analyzeDocumentCore ''invoice.pdf'' \<lparr>workflow = None\<rparr> exampleConfig
       (stubDeps okClient exampleConfig)
   = (\<lparr>success = False,
        message = ''No workflow specified. Use --workflow option to specify analysis workflow.'',
        exitCode = 1, error = JUndefined, data = None, result_uuid = None\<rparr>, [VerifyAuth])"
  by (simp add: analyzeDocumentCore_def analyzeFailure_def okClient_def stubs)

section \<open>The recent-jobs list\<close>

lemma recent_front:
  "hd (u # take 9 (filter (\<lambda>v. v \<noteq> u) xs)) = u
   \<and> length (u # take 9 (filter (\<lambda>v. v \<noteq> u) xs)) \<le> 10
   \<and> (distinct xs \<longrightarrow> distinct (u # take 9 (filter (\<lambda>v. v \<noteq> u) xs)))"
  by (auto dest: in_set_takeD)

lemma recent_new:
  "u \<notin> set xs \<Longrightarrow> u # take 9 (filter (\<lambda>v. v \<noteq> u) xs) = u # take 9 xs"
proof -
  assume "u \<notin> set xs"
  then have "filter (\<lambda>v. v \<noteq> u) xs = xs" by (induction xs) auto
  then show ?thesis by simp
qed

lemma take9_butlast: "length xs = 10 \<Longrightarrow> take 9 xs = butlast xs"
  by (simp add: butlast_conv_take)

lemma recent_present:
  "u \<in> set xs \<Longrightarrow> distinct xs \<Longrightarrow> length xs \<le> 10 \<Longrightarrow>
   take 9 (filter (\<lambda>v. v \<noteq> u) xs) = filter (\<lambda>v. v \<noteq> u) xs"
proof -
  assume a: "u \<in> set xs" "distinct xs" "length xs \<le> 10"
  have "length (filter (\<lambda>v. v \<noteq> u) xs) < length xs"
    using a(1) by (simp add: length_filter_less)
  then show ?thesis using a(3) by simp
qed

lemma getResultsCore_config:
  assumes "service_account_path config \<noteq> []"
    and "clientFactory deps (service_account_path config) (api_endpoint config) = Resolves c"
    and "client_verifyAuth c = Resolves a" and "truthy (auth_data a)" and "uuid \<noteq> []"
  shows "fst (snd (getResultsCore uuid options config deps)) =
     (if uuid \<in> set (recent_uuids config) then config
      else config\<lparr>recent_uuids := uuid # take 9 (filter (\<lambda>u. u \<noteq> uuid) (recent_uuids config))\<rparr>)"
  using assms
  by (simp add: getResultsCore_def Let_def split: outcome.splits option.splits)

lemma analyzeDocument_config:
  assumes "success (fst (analyzeDocumentCore filePath aopts (loadConfig deps) deps))"
    and "result_uuid (fst (analyzeDocumentCore filePath aopts (loadConfig deps) deps)) = Some u"
    and "u \<noteq> []"
  shows "fst (analyzeDocument filePath aopts deps) =
     (loadConfig deps)\<lparr>recent_uuids := u # take 9 (filter (\<lambda>v. v \<noteq> u) (recent_uuids (loadConfig deps)))\<rparr>"
  using assms
  by (simp add: analyzeDocument_def Let_def split: outcome.splits)

lemma analyzeDocumentCore_uuid:
  "success (fst (analyzeDocumentCore filePath aopts config deps)) \<Longrightarrow>
   truthyStr (result_uuid (fst (analyzeDocumentCore filePath aopts config deps)))"
  by (auto simp: analyzeDocumentCore_def analyzeFailure_def analyzeThrown_def Let_def
        split: if_splits outcome.splits)


text \<open>
  C4, amended. Analyze path (the wrapper \<open>analyzeDocument\<close>, after a successful
  submission that returned the id \<open>u\<close>): the new list is \<open>u\<close> followed by the first
  nine of the old entries other than \<open>u\<close>, in their old order; so \<open>u\<close> is at the front,
  the list has at most ten entries, a list without duplicates stays without duplicates,
  an id already present (in a list of at most ten distinct ids) is moved to the front
  and nothing is dropped, and an eleventh distinct id evicts the last, oldest, entry.
  Results path (\<open>getResultsCore\<close>, once authentication has passed and the id is not
  empty): an id already in the list leaves the list unchanged, it is not moved to the
  front; an id not in the list is put at the front of the first nine old entries, with
  the same cap, eviction and absence of duplicates.
\<close>

theorem recent_uuids_insertion:
  "(success (fst (analyzeDocumentCore filePath aopts (loadConfig deps) deps)) \<and>
    result_uuid (fst (analyzeDocumentCore filePath aopts (loadConfig deps) deps)) = Some u
    \<longrightarrow>
      (let old = recent_uuids (loadConfig deps);
           new = recent_uuids (fst (analyzeDocument filePath aopts deps))
       in new = u # take 9 (filter (\<lambda>v. v \<noteq> u) old)
        \<and> hd new = u \<and> length new \<le> 10
        \<and> (distinct old \<longrightarrow> distinct new)
        \<and> (u \<in> set old \<and> distinct old \<and> length old \<le> 10 \<longrightarrow>
             new = u # filter (\<lambda>v. v \<noteq> u) old)
        \<and> (u \<notin> set old \<and> length old = 10 \<longrightarrow> new = u # butlast old)))
 \<and> (service_account_path config \<noteq> [] \<and>
    clientFactory deps (service_account_path config) (api_endpoint config) = Resolves c \<and>
    client_verifyAuth c = Resolves a \<and> truthy (auth_data a) \<and> uuid \<noteq> []
    \<longrightarrow>
      (let old = recent_uuids config;
           new = recent_uuids (fst (snd (getResultsCore uuid options config deps)))
       in (uuid \<in> set old \<longrightarrow> new = old)
        \<and> (uuid \<notin> set old \<longrightarrow>
             new = uuid # take 9 old \<and> hd new = uuid \<and> length new \<le> 10
           \<and> (distinct old \<longrightarrow> distinct new)
           \<and> (length old = 10 \<longrightarrow> new = uuid # butlast old))))"
proof -
  have A: "let old = recent_uuids (loadConfig deps);
           new = recent_uuids (fst (analyzeDocument filePath aopts deps))
       in new = u # take 9 (filter (\<lambda>v. v \<noteq> u) old)
        \<and> hd new = u \<and> length new \<le> 10
        \<and> (distinct old \<longrightarrow> distinct new)
        \<and> (u \<in> set old \<and> distinct old \<and> length old \<le> 10 \<longrightarrow>
             new = u # filter (\<lambda>v. v \<noteq> u) old)
        \<and> (u \<notin> set old \<and> length old = 10 \<longrightarrow> new = u # butlast old)"
    if s: "success (fst (analyzeDocumentCore filePath aopts (loadConfig deps) deps))"
      and r: "result_uuid (fst (analyzeDocumentCore filePath aopts (loadConfig deps) deps)) = Some u"
  proof -
    have "u \<noteq> []" using analyzeDocumentCore_uuid [OF s] r by simp
    from analyzeDocument_config [OF s r this]
    have n: "recent_uuids (fst (analyzeDocument filePath aopts deps)) =
             u # take 9 (filter (\<lambda>v. v \<noteq> u) (recent_uuids (loadConfig deps)))"
      by simp
    show ?thesis
      unfolding Let_def n
      using recent_front [of u "recent_uuids (loadConfig deps)"]
            recent_present [of u "recent_uuids (loadConfig deps)"]
            recent_new [of u "recent_uuids (loadConfig deps)"]
            take9_butlast [of "recent_uuids (loadConfig deps)"]
      by simp
  qed
  have B: "let old = recent_uuids config;
           new = recent_uuids (fst (snd (getResultsCore uuid options config deps)))
       in (uuid \<in> set old \<longrightarrow> new = old)
        \<and> (uuid \<notin> set old \<longrightarrow>
             new = uuid # take 9 old \<and> hd new = uuid \<and> length new \<le> 10
           \<and> (distinct old \<longrightarrow> distinct new)
           \<and> (length old = 10 \<longrightarrow> new = uuid # butlast old))"
    if h: "service_account_path config \<noteq> []"
      "clientFactory deps (service_account_path config) (api_endpoint config) = Resolves c"
      "client_verifyAuth c = Resolves a" "truthy (auth_data a)" "uuid \<noteq> []"
  proof -
    note n = getResultsCore_config [OF h]
    show ?thesis
      unfolding Let_def n
      using recent_front [of uuid "recent_uuids config"]
            recent_new [of uuid "recent_uuids config"]
            take9_butlast [of "recent_uuids config"]
      by (auto dest: in_set_takeD)
  qed
  from A B show ?thesis by blast
qed

theorem recent_uuids_insertion_witness:
  "recent_uuids (fst (analyzeDocument ''invoice.pdf'' \<lparr>workflow = Some ''invoice''\<rparr>
       (stubDeps okClient (exampleConfig\<lparr>recent_uuids := [''a'', ''job-1'']\<rparr>))))
     = [''job-1'', ''a'']
   \<and> recent_uuids (fst (analyzeDocument ''invoice.pdf'' \<lparr>workflow = Some ''invoice''\<rparr>
       (stubDeps okClient fullConfig)))
     = [''job-1'', ''j1'', ''j2'', ''j3'', ''j4'', ''j5'', ''j6'', ''j7'', ''j8'', ''j9'']
   \<and> recent_uuids (fst (snd (getResultsCore ''job-7'' defaultOptions fullConfig
       (stubDeps okClient fullConfig))))
     = [''job-7'', ''j1'', ''j2'', ''j3'', ''j4'', ''j5'', ''j6'', ''j7'', ''j8'', ''j9'']
   \<and> recent_uuids (fst (snd (getResultsCore ''j3'' defaultOptions fullConfig
       (stubDeps okClient fullConfig))))
     = [''j1'', ''j2'', ''j3'', ''j4'', ''j5'', ''j6'', ''j7'', ''j8'', ''j9'', ''j10'']"
proof -
  let ?W = "\<lparr>workflow = Some ''invoice''\<rparr>"
  let ?D1 = "stubDeps okClient (exampleConfig\<lparr>recent_uuids := [''a'', ''job-1'']\<rparr>)"
  let ?D = "stubDeps okClient fullConfig"
  have s1: "success (fst (analyzeDocumentCore ''invoice.pdf'' ?W (loadConfig ?D1) ?D1)) \<and>
            result_uuid (fst (analyzeDocumentCore ''invoice.pdf'' ?W (loadConfig ?D1) ?D1))
              = Some ''job-1''"
    by (simp add: analyzeDocumentCore_def okClient_def stubs)
  have s2: "success (fst (analyzeDocumentCore ''invoice.pdf'' ?W (loadConfig ?D) ?D)) \<and>
            result_uuid (fst (analyzeDocumentCore ''invoice.pdf'' ?W (loadConfig ?D) ?D))
              = Some ''job-1''"
    by (simp add: analyzeDocumentCore_def fullConfig_def okClient_def stubs)
  have env: "service_account_path fullConfig \<noteq> [] \<and>
    clientFactory ?D (service_account_path fullConfig) (api_endpoint fullConfig)
      = Resolves okClient \<and>
    client_verifyAuth okClient = Resolves (AuthVerificationResult (JBool True)) \<and>
    truthy (auth_data (AuthVerificationResult (JBool True))) \<and> u \<noteq> []"
    if "u \<noteq> []" for u :: string
    using that by (simp add: fullConfig_def okClient_def stubs)
  have old1: "recent_uuids (loadConfig ?D1) = [''a'', ''job-1'']"
    by (simp add: stubs)
  have old: "recent_uuids (loadConfig ?D) = recent_uuids fullConfig"
    "recent_uuids fullConfig =
       [''j1'', ''j2'', ''j3'', ''j4'', ''j5'', ''j6'', ''j7'', ''j8'', ''j9'', ''j10'']"
    by (simp_all add: fullConfig_def stubs)
  have a1: "recent_uuids (fst (analyzeDocument ''invoice.pdf'' ?W ?D1)) = [''job-1'', ''a'']"
    using recent_uuids_insertion [THEN conjunct1, THEN mp, OF s1]
    by (simp add: Let_def old1)
  have a2: "recent_uuids (fst (analyzeDocument ''invoice.pdf'' ?W ?D))
       = [''job-1'', ''j1'', ''j2'', ''j3'', ''j4'', ''j5'', ''j6'', ''j7'', ''j8'', ''j9'']"
    using recent_uuids_insertion [THEN conjunct1, THEN mp, OF s2]
    by (simp add: Let_def old)
  have r1: "recent_uuids (fst (snd (getResultsCore ''job-7'' defaultOptions fullConfig ?D)))
       = [''job-7'', ''j1'', ''j2'', ''j3'', ''j4'', ''j5'', ''j6'', ''j7'', ''j8'', ''j9'']"
    using recent_uuids_insertion [where options = defaultOptions, THEN conjunct2, THEN mp,
            OF env [of "''job-7''"]]
    by (simp add: Let_def old)
  have r2: "recent_uuids (fst (snd (getResultsCore ''j3'' defaultOptions fullConfig ?D)))
       = [''j1'', ''j2'', ''j3'', ''j4'', ''j5'', ''j6'', ''j7'', ''j8'', ''j9'', ''j10'']"
    using recent_uuids_insertion [where options = defaultOptions, THEN conjunct2, THEN mp,
            OF env [of "''j3''"]]
    by (simp add: Let_def old)
  from a1 a2 r1 r2 show ?thesis by simp
qed

text \<open>
  C4, as stated, fails on the results path: with the list \<open>[a, b]\<close>, a run of
  \<open>getResultsCore\<close> for the job \<open>b\<close> leaves the list as it is; \<open>b\<close> is not moved to
  the front.
\<close>

theorem getResultsCore_present_uuid_not_moved:
  "recent_uuids (fst (snd (getResultsCore ''b'' defaultOptions exampleConfig
       (stubDeps okClient exampleConfig))))
     = [''a'', ''b'']"
  by (simp add: getResultsCore_def Let_def okClient_def stubs)

section \<open>The TTL parser on numerals and on malformed input\<close>

lemma digit_facts:
  assumes "isDecimalDigit c"
  shows "\<not> isWhiteSpace c" "lowerChar c = c" "isRadixDigit 10 c"
    "int (the (digitValue c)) = int (of_char c) - 48"
    "c \<noteq> CHR ''-''" "c \<noteq> CHR ''+''" "c \<noteq> CHR ''s''" "c \<noteq> CHR ''m''" "c \<noteq> CHR ''h''"
    "c \<noteq> CHR ''x''" "c \<noteq> CHR ''X''"
  using assms
  by (auto simp: isDecimalDigit_def isWhiteSpace_def lowerChar_def isRadixDigit_def
        digitValue_def)

lemma endsWith_single: "endsWith s [c] = (s \<noteq> [] \<and> last s = c)"
proof (cases s rule: rev_cases)
  case Nil
  then show ?thesis by (simp add: endsWith_def)
next
  case (snoc ys y)
  then show ?thesis by (auto simp: endsWith_def)
qed

lemma slice0m1_snoc: "slice0m1 (s @ [c]) = s"
  by (simp add: slice0m1_def)

lemma trim_core:
  assumes "core \<noteq> []" "\<not> isWhiteSpace (hd core)" "\<not> isWhiteSpace (last core)"
    and "list_all isWhiteSpace l" "list_all isWhiteSpace r"
  shows "trim (l @ core @ r) = core"
proof -
  have l: "dropWhile isWhiteSpace (l @ core @ r) = core @ r"
    using assms(1,2,4) by (cases core) (simp_all add: dropWhile_append2 list_all_iff)
  have "dropWhile isWhiteSpace (rev r @ rev core) = dropWhile isWhiteSpace (rev core)"
    by (rule dropWhile_append2) (use assms(5) in \<open>simp add: list_all_iff\<close>)
  also have "\<dots> = rev core"
    using assms(1,3) by (cases core rule: rev_cases) simp_all
  finally show ?thesis by (simp add: trim_def l)
qed

lemma toLowerCase_digits:
  "list_all isDecimalDigit ds \<Longrightarrow> toLowerCase (ds @ t) = ds @ toLowerCase t"
  by (simp add: toLowerCase_def list_all_iff digit_facts(2) map_idI)

lemma takeWhile_digits:
  "list_all isDecimalDigit ds \<Longrightarrow> takeWhile (isRadixDigit 10) ds = ds"
  by (simp add: list_all_iff digit_facts(3))

lemma radixValue_decimal:
  "list_all isDecimalDigit ds \<Longrightarrow>
   int (foldl (\<lambda>acc c. acc * 10 + the (digitValue c)) a ds)
     = foldl (\<lambda>acc c. 10 * acc + (int (of_char c) - 48)) (int a) ds"
proof (induction ds arbitrary: a)
  case Nil
  then show ?case by simp
next
  case (Cons d ds)
  have "int (a * 10 + the (digitValue d)) = 10 * int a + (int (of_char d) - 48)"
    using Cons.prems digit_facts(4) [of d] by simp
  then show ?case using Cons by (simp add: mult.commute)
qed

lemma no_hex_prefix:
  "list_all isDecimalDigit ds \<Longrightarrow> take 2 ds \<noteq> ''0x'' \<and> take 2 ds \<noteq> ''0X''"
proof (cases ds)
  case Nil
  then show ?thesis by simp
next
  case (Cons a as)
  assume d: "list_all isDecimalDigit ds"
  show ?thesis
  proof (cases as)
    case Nil
    with Cons show ?thesis by simp
  next
    case (Cons b bs)
    with \<open>ds = a # as\<close> d have "isDecimalDigit b" by simp
    then have "b \<noteq> CHR ''x''" "b \<noteq> CHR ''X''" using digit_facts by blast+
    with Cons \<open>ds = a # as\<close> show ?thesis by simp
  qed
qed

lemma slice0m1_butlast: "slice0m1 s = butlast s"
  by (simp add: slice0m1_def butlast_conv_take)

lemma parseInt_digits:
  assumes "ds \<noteq> []" "list_all isDecimalDigit ds"
  shows "parseInt ds 0 = toNumber (decimalValue ds)"
proof -
  have h: "isDecimalDigit (hd ds)" using assms by (cases ds) simp_all
  have t: "trimStart ds = ds"
    using assms(1) digit_facts(1) [OF h] by (cases ds) (simp_all add: trimStart_def)
  have s: "hd ds \<noteq> CHR ''-''" "hd ds \<noteq> CHR ''+''" using digit_facts [OF h] by blast+
  show ?thesis
    using assms(1) s no_hex_prefix [OF assms(2)]
    by (simp add: parseInt_def t Let_def radixValue_def decimalValue_def
          takeWhile_digits [OF assms(2)] radixValue_decimal [OF assms(2), of 0, simplified])
qed

lemma parseInt_minus_digits:
  assumes "ds \<noteq> []" "list_all isDecimalDigit ds"
  shows "parseInt (''-'' @ ds) 0 = toNumber (- decimalValue ds)"
proof -
  have t: "trimStart (CHR ''-'' # ds) = CHR ''-'' # ds"
    by (simp add: trimStart_def isWhiteSpace_def)
  show ?thesis
    using assms(1) no_hex_prefix [OF assms(2)]
    by (simp add: parseInt_def t Let_def radixValue_def decimalValue_def
          takeWhile_digits [OF assms(2)] radixValue_decimal [OF assms(2), of 0, simplified])
qed

lemma parseInt_safe: "parseInt s radix = Exact k \<Longrightarrow> isSafeInteger k"
  by (simp add: parseInt_def Let_def toNumber_def split: if_splits)

lemma radix_digit_decimal: "isRadixDigit 10 c \<Longrightarrow> isDecimalDigit c"
proof -
  assume a: "isRadixDigit 10 c"
  define n where "n = (of_char c :: nat)"
  have c: "c = char_of n" by (simp add: n_def)
  have "48 \<le> n \<and> n \<le> 57"
    using a unfolding isRadixDigit_def digitValue_def Let_def n_def [symmetric]
    by (auto split: if_splits)
  then have "n = 48 \<or> n = 49 \<or> n = 50 \<or> n = 51 \<or> n = 52 \<or> n = 53 \<or> n = 54 \<or> n = 55
      \<or> n = 56 \<or> n = 57"
    by arith
  moreover have "char_of (48 :: nat) = CHR ''0''" "char_of (49 :: nat) = CHR ''1''"
    "char_of (50 :: nat) = CHR ''2''" "char_of (51 :: nat) = CHR ''3''"
    "char_of (52 :: nat) = CHR ''4''" "char_of (53 :: nat) = CHR ''5''"
    "char_of (54 :: nat) = CHR ''6''" "char_of (55 :: nat) = CHR ''7''"
    "char_of (56 :: nat) = CHR ''8''" "char_of (57 :: nat) = CHR ''9''"
    by code_simp+
  ultimately show ?thesis unfolding c isDecimalDigit_def by auto
qed

lemma parseInt_nonnumeric:
  assumes "\<not> isWhiteSpace c" "c \<noteq> CHR ''+''" "c \<noteq> CHR ''-''" "\<not> isDecimalDigit c"
  shows "parseInt (c # rest) 0 = NaN"
proof -
  have t: "trimStart (c # rest) = c # rest" using assms(1) by (simp add: trimStart_def)
  have z: "c \<noteq> CHR ''0''" using assms(4) by (auto simp: isDecimalDigit_def)
  have d: "\<not> isRadixDigit 10 c" using assms(4) radix_digit_decimal by blast
  show ?thesis
    using assms(2,3) d z by (simp add: parseInt_def t Let_def)
qed

lemma parseInt_empty: "parseInt [] 0 = NaN"
  by (simp add: parseInt_def trimStart_def Let_def)

text \<open>The parser through the unit and the numeric part of the normalized input.\<close>

lemma parse_by_parts:
  assumes t: "t = toLowerCase (trim input)"
  shows "parseWorkflowCacheTtlCore input =
     (let seconds = (if ttlUnit t = 1 then parseInt (ttlBody t) 0
                     else timesConstant (parseInt (ttlBody t) 0) (ttlUnit t))
      in if isNaN seconds \<or> lessThanZero seconds then invalidTtl
         else \<lparr>success = True, message = ''Cache TTL parsed successfully'', exitCode = 0,
                error = JUndefined,
                data = Some (JObj [(''seconds'', numberValue seconds),
                                   (''formattedString'', formattedMessage seconds)])\<rparr>)"
  unfolding parseWorkflowCacheTtlCore_def t [symmetric] ttlUnit_def ttlBody_def
    endsWith_single slice0m1_butlast invalidTtl_def Let_def
  by simp

lemma parse_nan:
  assumes "t = toLowerCase (trim input)" "parseInt (ttlBody t) 0 = NaN"
  shows "parseWorkflowCacheTtlCore input = invalidTtl"
  by (simp add: parse_by_parts [OF assms(1)] assms(2))

lemma parse_negative:
  assumes "t = toLowerCase (trim input)"
    and "(\<exists>k. parseInt (ttlBody t) 0 = Exact k \<and> k < 0) \<or> parseInt (ttlBody t) 0 = Large True"
  shows "parseWorkflowCacheTtlCore input = invalidTtl"
proof -
  have u: "0 < ttlUnit t" by (simp add: ttlUnit_def)
  from assms(2) show ?thesis
  proof
    assume "\<exists>k. parseInt (ttlBody t) 0 = Exact k \<and> k < 0"
    then obtain k where k: "parseInt (ttlBody t) 0 = Exact k" "k < 0" by blast
    have "k * ttlUnit t < 0" using k(2) u by (simp add: mult_less_0_iff)
    then have "lessThanZero (toNumber (k * ttlUnit t))" by (simp add: toNumber_def)
    then show ?thesis using k by (simp add: parse_by_parts [OF assms(1)])
  next
    assume "parseInt (ttlBody t) 0 = Large True"
    then show ?thesis by (simp add: parse_by_parts [OF assms(1)])
  qed
qed

lemma parse_exact:
  assumes "t = toLowerCase (trim input)" "parseInt (ttlBody t) 0 = Exact k" "0 \<le> k"
    and "k * ttlUnit t < 9007199254740992"
  shows "parseWorkflowCacheTtlCore input = parsedOk (k * ttlUnit t)"
proof -
  have u: "0 < ttlUnit t" by (simp add: ttlUnit_def)
  have "0 \<le> k * ttlUnit t" using assms(3) u by simp
  then have s: "toNumber (k * ttlUnit t) = Exact (k * ttlUnit t)"
    using assms(4) by (simp add: toNumber_def isSafeInteger_def)
  show ?thesis
    using assms(2,3) \<open>0 \<le> k * ttlUnit t\<close>
    by (simp add: parse_by_parts [OF assms(1)] s parsedOk_def)
qed

lemma formattedMessage_large: "formattedMessage (Large neg) = JLargeText"
  by (simp add: formattedMessage_def formatCacheTtlCore_def)

lemma parse_large:
  assumes "t = toLowerCase (trim input)"
    and "parseInt (ttlBody t) 0 = Large False \<or>
         (\<exists>k. parseInt (ttlBody t) 0 = Exact k \<and> 0 \<le> k \<and> 9007199254740992 \<le> k * ttlUnit t)"
  shows "parseWorkflowCacheTtlCore input = parsedLarge"
proof -
  from assms(2) show ?thesis
  proof
    assume "parseInt (ttlBody t) 0 = Large False"
    then show ?thesis
      by (simp add: parse_by_parts [OF assms(1)] parsedLarge_def formattedMessage_large)
  next
    assume "\<exists>k. parseInt (ttlBody t) 0 = Exact k \<and> 0 \<le> k \<and> 9007199254740992 \<le> k * ttlUnit t"
    then obtain k where k: "parseInt (ttlBody t) 0 = Exact k" "0 \<le> k"
      "9007199254740992 \<le> k * ttlUnit t" by blast
    have safe: "k < 9007199254740992" using parseInt_safe [OF k(1)] by (simp add: isSafeInteger_def)
    then have "ttlUnit t \<noteq> 1" using k(3) by auto
    moreover have "toNumber (k * ttlUnit t) = Large False"
      using k(3) by (simp add: toNumber_def isSafeInteger_def)
    ultimately show ?thesis
      using k(1)
      by (simp add: parse_by_parts [OF assms(1)] parsedLarge_def formattedMessage_large)
  qed
qed

lemma decimalValue_nonneg_aux:
  "list_all isDecimalDigit ds \<Longrightarrow> 0 \<le> a \<Longrightarrow>
   0 \<le> foldl (\<lambda>acc c. 10 * acc + (int (of_char c) - 48)) a ds"
proof (induction ds arbitrary: a)
  case Nil
  then show ?case by simp
next
  case (Cons d ds)
  have "isDecimalDigit d" using Cons.prems(1) by simp
  then have "int (the (digitValue d)) = int (of_char d) - 48"
    by (rule digit_facts(4))
  then have "0 \<le> int (of_char d) - 48" by linarith
  then show ?case using Cons by simp
qed

lemma decimalValue_nonneg: "list_all isDecimalDigit ds \<Longrightarrow> 0 \<le> decimalValue ds"
  by (simp add: decimalValue_def decimalValue_nonneg_aux)

lemma parse_two_records:
  "parseWorkflowCacheTtlCore input = invalidTtl \<or>
   (success (parseWorkflowCacheTtlCore input) \<and>
    message (parseWorkflowCacheTtlCore input) = ''Cache TTL parsed successfully'' \<and>
    exitCode (parseWorkflowCacheTtlCore input) = 0)"
proof -
  define seconds where "seconds =
     (if ttlUnit (toLowerCase (trim input)) = 1
      then parseInt (ttlBody (toLowerCase (trim input))) 0
      else timesConstant (parseInt (ttlBody (toLowerCase (trim input))) 0)
             (ttlUnit (toLowerCase (trim input))))"
  have p: "parseWorkflowCacheTtlCore input =
     (if isNaN seconds \<or> lessThanZero seconds then invalidTtl
      else \<lparr>success = True, message = ''Cache TTL parsed successfully'', exitCode = 0,
             error = JUndefined,
             data = Some (JObj [(''seconds'', numberValue seconds),
                                (''formattedString'', formattedMessage seconds)])\<rparr>)"
    unfolding seconds_def using parse_by_parts [OF refl, of input] by (simp add: Let_def)
  show ?thesis
  proof (cases "isNaN seconds \<or> lessThanZero seconds")
    case True
    then show ?thesis by (simp add: p)
  next
    case False
    then show ?thesis by (simp add: p)
  qed
qed

lemma parse_failure_record:
  "\<not> success (parseWorkflowCacheTtlCore input) \<Longrightarrow> parseWorkflowCacheTtlCore input = invalidTtl"
  using parse_two_records [of input] by blast

lemma parse_never_invalid_format:
  "message (parseWorkflowCacheTtlCore input) \<noteq> ''Invalid format. Examples: 30s, 10m, 2h''"
  using parse_two_records [of input] by (auto simp: invalidTtl_def plain_def)

lemma last_digit:
  assumes "ds \<noteq> []" "list_all isDecimalDigit ds"
  shows "isDecimalDigit (last ds)" "isDecimalDigit (hd ds)"
  using assms by (simp_all add: list_all_iff)

lemma normalize_numeral:
  assumes d: "ds \<noteq> []" "list_all isDecimalDigit ds"
    and w: "list_all isWhiteSpace l" "list_all isWhiteSpace r"
    and pre: "pre = [] \<or> pre = ''-''"
    and sfx: "sfx \<in> set [[], ''s'', ''S'', ''m'', ''M'', ''h'', ''H'']"
  shows "toLowerCase (trim (l @ pre @ ds @ sfx @ r)) = pre @ ds @ toLowerCase sfx"
proof -
  have "\<not> isWhiteSpace (hd ds)" using digit_facts(1) [OF last_digit(2) [OF d]] .
  then have hd: "\<not> isWhiteSpace (hd (pre @ ds @ sfx))"
    using d(1) pre by (auto simp: isWhiteSpace_def)
  have "\<not> isWhiteSpace (last ds)" using digit_facts(1) [OF last_digit(1) [OF d]] .
  then have last: "\<not> isWhiteSpace (last (pre @ ds @ sfx))"
    using d(1) sfx by (auto simp: isWhiteSpace_def)
  have "trim (l @ (pre @ ds @ sfx) @ r) = pre @ ds @ sfx"
    using d(1) by (intro trim_core hd last w) simp
  moreover have "toLowerCase (pre @ ds @ sfx) = pre @ ds @ toLowerCase sfx"
    using pre toLowerCase_digits [OF d(2), of sfx]
    by (auto simp: toLowerCase_def lowerChar_def)
  ultimately show ?thesis by simp
qed

lemma lower_suffix:
  "toLowerCase ''S'' = ''s''" "toLowerCase ''M'' = ''m''" "toLowerCase ''H'' = ''h''"
  "toLowerCase ''s'' = ''s''" "toLowerCase ''m'' = ''m''" "toLowerCase ''h'' = ''h''"
  "toLowerCase [] = []"
  by code_simp+

lemma parts_numeral:
  assumes d: "ds \<noteq> []" "list_all isDecimalDigit ds"
  shows "ttlBody (pre @ ds) = pre @ ds" "ttlUnit (pre @ ds) = 1"
    "ttlBody (pre @ ds @ ''s'') = pre @ ds" "ttlUnit (pre @ ds @ ''s'') = 1"
    "ttlBody (pre @ ds @ ''m'') = pre @ ds" "ttlUnit (pre @ ds @ ''m'') = 60"
    "ttlBody (pre @ ds @ ''h'') = pre @ ds" "ttlUnit (pre @ ds @ ''h'') = 3600"
  using d(1) digit_facts [OF last_digit(1) [OF d]]
  by (simp_all add: ttlBody_def ttlUnit_def butlast_append)

lemma parse_numeral:
  assumes d: "ds \<noteq> []" "list_all isDecimalDigit ds"
    and w: "list_all isWhiteSpace l" "list_all isWhiteSpace r"
    and sfx: "sfx \<in> set [[], ''s'', ''S'', ''m'', ''M'', ''h'', ''H'']"
    and b: "decimalValue ds * ttlUnit (ds @ toLowerCase sfx) < 9007199254740992"
  shows "parseWorkflowCacheTtlCore (l @ ds @ sfx @ r)
           = parsedOk (decimalValue ds * ttlUnit (ds @ toLowerCase sfx))"
proof -
  have n: "ds @ toLowerCase sfx = toLowerCase (trim (l @ ds @ sfx @ r))"
    using normalize_numeral [OF d w _ sfx, of "[]"] by simp
  have body: "ttlBody (ds @ toLowerCase sfx) = ds"
    using sfx parts_numeral [OF d, of "[]"] by (auto simp: lower_suffix)
  have u: "1 \<le> ttlUnit (ds @ toLowerCase sfx)" by (simp add: ttlUnit_def)
  have nn: "0 \<le> decimalValue ds" using decimalValue_nonneg [OF d(2)] .
  have "decimalValue ds * 1 \<le> decimalValue ds * ttlUnit (ds @ toLowerCase sfx)"
    using nn u by (intro mult_left_mono) simp_all
  then have "decimalValue ds < 9007199254740992" using b by simp
  then have p: "parseInt (ttlBody (ds @ toLowerCase sfx)) 0 = Exact (decimalValue ds)"
    using nn by (simp add: body parseInt_digits [OF d] toNumber_def isSafeInteger_def)
  show ?thesis using parse_exact [OF n p nn b] .
qed

lemma parse_negative_numeral:
  assumes d: "ds \<noteq> []" "list_all isDecimalDigit ds"
    and w: "list_all isWhiteSpace l" "list_all isWhiteSpace r"
    and sfx: "sfx \<in> set [[], ''s'', ''S'', ''m'', ''M'', ''h'', ''H'']"
    and pos: "0 < decimalValue ds"
  shows "parseWorkflowCacheTtlCore (l @ ''-'' @ ds @ sfx @ r) = invalidTtl"
proof -
  define t where "t = ''-'' @ ds @ toLowerCase sfx"
  have n: "t = toLowerCase (trim (l @ ''-'' @ ds @ sfx @ r))"
    unfolding t_def using normalize_numeral [OF d w _ sfx, of "''-''"] by simp
  have body: "ttlBody t = ''-'' @ ds"
    unfolding t_def using sfx parts_numeral [OF d, of "''-''"] by (auto simp: lower_suffix)
  have "parseInt (ttlBody t) 0 = toNumber (- decimalValue ds)"
    unfolding body by (rule parseInt_minus_digits [OF d])
  then have "(\<exists>k. parseInt (ttlBody t) 0 = Exact k \<and> k < 0)
      \<or> parseInt (ttlBody t) 0 = Large True"
    using pos by (simp add: toNumber_def)
  then show ?thesis by (rule parse_negative [OF n])
qed

text \<open>
  C7, amended. For every input, \<open>parseWorkflowCacheTtlCore\<close> trims it, lowercases it,
  takes a final \<open>s\<close> as seconds, a final \<open>m\<close> as minutes of 60 seconds, a final \<open>h\<close> as
  hours of 3600 seconds and no such suffix as seconds, and reads the rest with
  \<open>parseInt\<close>. When that value is NaN (an empty or non-numeric rest, as in \<open>x90\<close>) or
  negative, the result is the failure record with the message "Invalid cache TTL. Must
  be a positive number." and exit code 1, and every failure is this record. When the
  value is not negative, the parse succeeds: with the value times the unit as seconds
  while that product is below \<open>2^53\<close>, and with a large number of seconds from there
  on. In particular a decimal numeral, with white space around it and a suffix in
  either case, gives its value times the unit, and a numeral with a minus sign and a
  positive value fails. No input yields the message "Invalid format. Examples: 30s, 10m,
  2h".
\<close>

theorem parseWorkflowCacheTtlCore_behaviour:
  "message (parseWorkflowCacheTtlCore input) \<noteq> ''Invalid format. Examples: 30s, 10m, 2h''
   \<and> (\<not> success (parseWorkflowCacheTtlCore input) \<longrightarrow>
        parseWorkflowCacheTtlCore input = invalidTtl)
   \<and> (t = toLowerCase (trim input) \<longrightarrow>
        (parseInt (ttlBody t) 0 = NaN \<longrightarrow> parseWorkflowCacheTtlCore input = invalidTtl)
      \<and> (parseInt (ttlBody t) 0 = Exact k \<and> k < 0 \<longrightarrow>
           parseWorkflowCacheTtlCore input = invalidTtl)
      \<and> (parseInt (ttlBody t) 0 = Large True \<longrightarrow> parseWorkflowCacheTtlCore input = invalidTtl)
      \<and> (parseInt (ttlBody t) 0 = Exact k \<and> 0 \<le> k \<and> k * ttlUnit t < 9007199254740992 \<longrightarrow>
           parseWorkflowCacheTtlCore input = parsedOk (k * ttlUnit t))
      \<and> (parseInt (ttlBody t) 0 = Large False \<or>
          (parseInt (ttlBody t) 0 = Exact k \<and> 0 \<le> k \<and> 9007199254740992 \<le> k * ttlUnit t) \<longrightarrow>
           parseWorkflowCacheTtlCore input = parsedLarge)
      \<and> (ttlBody t = [] \<longrightarrow> parseWorkflowCacheTtlCore input = invalidTtl)
      \<and> (ttlBody t = c # rest \<and> \<not> isWhiteSpace c \<and> c \<noteq> CHR ''+'' \<and> c \<noteq> CHR ''-'' \<and>
          \<not> isDecimalDigit c \<longrightarrow> parseWorkflowCacheTtlCore input = invalidTtl))
   \<and> (ds \<noteq> [] \<and> list_all isDecimalDigit ds \<and> list_all isWhiteSpace l \<and> list_all isWhiteSpace r
       \<longrightarrow>
        (decimalValue ds < 9007199254740992 \<longrightarrow>
           parseWorkflowCacheTtlCore (l @ ds @ r) = parsedOk (decimalValue ds)
         \<and> parseWorkflowCacheTtlCore (l @ ds @ ''s'' @ r) = parsedOk (decimalValue ds)
         \<and> parseWorkflowCacheTtlCore (l @ ds @ ''S'' @ r) = parsedOk (decimalValue ds))
      \<and> (decimalValue ds * 60 < 9007199254740992 \<longrightarrow>
           parseWorkflowCacheTtlCore (l @ ds @ ''m'' @ r) = parsedOk (decimalValue ds * 60)
         \<and> parseWorkflowCacheTtlCore (l @ ds @ ''M'' @ r) = parsedOk (decimalValue ds * 60))
      \<and> (decimalValue ds * 3600 < 9007199254740992 \<longrightarrow>
           parseWorkflowCacheTtlCore (l @ ds @ ''h'' @ r) = parsedOk (decimalValue ds * 3600)
         \<and> parseWorkflowCacheTtlCore (l @ ds @ ''H'' @ r) = parsedOk (decimalValue ds * 3600))
      \<and> (0 < decimalValue ds \<longrightarrow>
           parseWorkflowCacheTtlCore (l @ ''-'' @ ds @ r) = invalidTtl
         \<and> parseWorkflowCacheTtlCore (l @ ''-'' @ ds @ ''s'' @ r) = invalidTtl
         \<and> parseWorkflowCacheTtlCore (l @ ''-'' @ ds @ ''m'' @ r) = invalidTtl
         \<and> parseWorkflowCacheTtlCore (l @ ''-'' @ ds @ ''h'' @ r) = invalidTtl))"
proof -
  have parts: "(parseInt (ttlBody t) 0 = NaN \<longrightarrow> parseWorkflowCacheTtlCore input = invalidTtl)
      \<and> (parseInt (ttlBody t) 0 = Exact k \<and> k < 0 \<longrightarrow>
           parseWorkflowCacheTtlCore input = invalidTtl)
      \<and> (parseInt (ttlBody t) 0 = Large True \<longrightarrow> parseWorkflowCacheTtlCore input = invalidTtl)
      \<and> (parseInt (ttlBody t) 0 = Exact k \<and> 0 \<le> k \<and> k * ttlUnit t < 9007199254740992 \<longrightarrow>
           parseWorkflowCacheTtlCore input = parsedOk (k * ttlUnit t))
      \<and> (parseInt (ttlBody t) 0 = Large False \<or>
          (parseInt (ttlBody t) 0 = Exact k \<and> 0 \<le> k \<and> 9007199254740992 \<le> k * ttlUnit t) \<longrightarrow>
           parseWorkflowCacheTtlCore input = parsedLarge)
      \<and> (ttlBody t = [] \<longrightarrow> parseWorkflowCacheTtlCore input = invalidTtl)
      \<and> (ttlBody t = c # rest \<and> \<not> isWhiteSpace c \<and> c \<noteq> CHR ''+'' \<and> c \<noteq> CHR ''-'' \<and>
          \<not> isDecimalDigit c \<longrightarrow> parseWorkflowCacheTtlCore input = invalidTtl)"
    if t: "t = toLowerCase (trim input)"
  proof -
    have 1: "parseInt (ttlBody t) 0 = NaN \<longrightarrow> parseWorkflowCacheTtlCore input = invalidTtl"
      using parse_nan [OF t] by blast
    have 2: "parseInt (ttlBody t) 0 = Exact k \<and> k < 0 \<longrightarrow>
           parseWorkflowCacheTtlCore input = invalidTtl"
      using parse_negative [OF t] by blast
    have 3: "parseInt (ttlBody t) 0 = Large True \<longrightarrow> parseWorkflowCacheTtlCore input = invalidTtl"
      using parse_negative [OF t] by blast
    have 4: "parseInt (ttlBody t) 0 = Exact k \<and> 0 \<le> k \<and> k * ttlUnit t < 9007199254740992 \<longrightarrow>
           parseWorkflowCacheTtlCore input = parsedOk (k * ttlUnit t)"
      using parse_exact [OF t] by blast
    have 5: "parseInt (ttlBody t) 0 = Large False \<or>
          (parseInt (ttlBody t) 0 = Exact k \<and> 0 \<le> k \<and> 9007199254740992 \<le> k * ttlUnit t) \<longrightarrow>
           parseWorkflowCacheTtlCore input = parsedLarge"
      using parse_large [OF t] by blast
    have 6: "ttlBody t = [] \<longrightarrow> parseWorkflowCacheTtlCore input = invalidTtl"
      using parse_nan [OF t] parseInt_empty by simp
    have 7: "ttlBody t = c # rest \<and> \<not> isWhiteSpace c \<and> c \<noteq> CHR ''+'' \<and> c \<noteq> CHR ''-'' \<and>
          \<not> isDecimalDigit c \<longrightarrow> parseWorkflowCacheTtlCore input = invalidTtl"
      using parse_nan [OF t] parseInt_nonnumeric [of c rest] by simp
    from 1 2 3 4 5 6 7 show ?thesis by blast
  qed
  have numerals: "(decimalValue ds < 9007199254740992 \<longrightarrow>
           parseWorkflowCacheTtlCore (l @ ds @ r) = parsedOk (decimalValue ds)
         \<and> parseWorkflowCacheTtlCore (l @ ds @ ''s'' @ r) = parsedOk (decimalValue ds)
         \<and> parseWorkflowCacheTtlCore (l @ ds @ ''S'' @ r) = parsedOk (decimalValue ds))
      \<and> (decimalValue ds * 60 < 9007199254740992 \<longrightarrow>
           parseWorkflowCacheTtlCore (l @ ds @ ''m'' @ r) = parsedOk (decimalValue ds * 60)
         \<and> parseWorkflowCacheTtlCore (l @ ds @ ''M'' @ r) = parsedOk (decimalValue ds * 60))
      \<and> (decimalValue ds * 3600 < 9007199254740992 \<longrightarrow>
           parseWorkflowCacheTtlCore (l @ ds @ ''h'' @ r) = parsedOk (decimalValue ds * 3600)
         \<and> parseWorkflowCacheTtlCore (l @ ds @ ''H'' @ r) = parsedOk (decimalValue ds * 3600))
      \<and> (0 < decimalValue ds \<longrightarrow>
           parseWorkflowCacheTtlCore (l @ ''-'' @ ds @ r) = invalidTtl
         \<and> parseWorkflowCacheTtlCore (l @ ''-'' @ ds @ ''s'' @ r) = invalidTtl
         \<and> parseWorkflowCacheTtlCore (l @ ''-'' @ ds @ ''m'' @ r) = invalidTtl
         \<and> parseWorkflowCacheTtlCore (l @ ''-'' @ ds @ ''h'' @ r) = invalidTtl)"
    if d: "ds \<noteq> []" "list_all isDecimalDigit ds"
      and w: "list_all isWhiteSpace l" "list_all isWhiteSpace r"
  proof -
    note u = parts_numeral [OF d, of "[]", simplified]
    have s: "decimalValue ds < 9007199254740992 \<longrightarrow>
           parseWorkflowCacheTtlCore (l @ ds @ r) = parsedOk (decimalValue ds)
         \<and> parseWorkflowCacheTtlCore (l @ ds @ ''s'' @ r) = parsedOk (decimalValue ds)
         \<and> parseWorkflowCacheTtlCore (l @ ds @ ''S'' @ r) = parsedOk (decimalValue ds)"
      using parse_numeral [OF d w, of "[]"] parse_numeral [OF d w, of "''s''"]
        parse_numeral [OF d w, of "''S''"]
      by (simp add: lower_suffix u)
    have m: "decimalValue ds * 60 < 9007199254740992 \<longrightarrow>
           parseWorkflowCacheTtlCore (l @ ds @ ''m'' @ r) = parsedOk (decimalValue ds * 60)
         \<and> parseWorkflowCacheTtlCore (l @ ds @ ''M'' @ r) = parsedOk (decimalValue ds * 60)"
      using parse_numeral [OF d w, of "''m''"] parse_numeral [OF d w, of "''M''"]
      by (simp add: lower_suffix u)
    have h: "decimalValue ds * 3600 < 9007199254740992 \<longrightarrow>
           parseWorkflowCacheTtlCore (l @ ds @ ''h'' @ r) = parsedOk (decimalValue ds * 3600)
         \<and> parseWorkflowCacheTtlCore (l @ ds @ ''H'' @ r) = parsedOk (decimalValue ds * 3600)"
      using parse_numeral [OF d w, of "''h''"] parse_numeral [OF d w, of "''H''"]
      by (simp add: lower_suffix u)
    have n: "0 < decimalValue ds \<longrightarrow>
           parseWorkflowCacheTtlCore (l @ ''-'' @ ds @ r) = invalidTtl
         \<and> parseWorkflowCacheTtlCore (l @ ''-'' @ ds @ ''s'' @ r) = invalidTtl
         \<and> parseWorkflowCacheTtlCore (l @ ''-'' @ ds @ ''m'' @ r) = invalidTtl
         \<and> parseWorkflowCacheTtlCore (l @ ''-'' @ ds @ ''h'' @ r) = invalidTtl"
      using parse_negative_numeral [OF d w, of "[]"] parse_negative_numeral [OF d w, of "''s''"]
        parse_negative_numeral [OF d w, of "''m''"] parse_negative_numeral [OF d w, of "''h''"]
      by simp
    from s m h n show ?thesis by blast
  qed
  have A: "message (parseWorkflowCacheTtlCore input) \<noteq> ''Invalid format. Examples: 30s, 10m, 2h''"
    by (rule parse_never_invalid_format)
  have B: "\<not> success (parseWorkflowCacheTtlCore input) \<longrightarrow>
        parseWorkflowCacheTtlCore input = invalidTtl"
    by (rule impI) (rule parse_failure_record)
  have C: "t = toLowerCase (trim input) \<longrightarrow>
        (parseInt (ttlBody t) 0 = NaN \<longrightarrow> parseWorkflowCacheTtlCore input = invalidTtl)
      \<and> (parseInt (ttlBody t) 0 = Exact k \<and> k < 0 \<longrightarrow>
           parseWorkflowCacheTtlCore input = invalidTtl)
      \<and> (parseInt (ttlBody t) 0 = Large True \<longrightarrow> parseWorkflowCacheTtlCore input = invalidTtl)
      \<and> (parseInt (ttlBody t) 0 = Exact k \<and> 0 \<le> k \<and> k * ttlUnit t < 9007199254740992 \<longrightarrow>
           parseWorkflowCacheTtlCore input = parsedOk (k * ttlUnit t))
      \<and> (parseInt (ttlBody t) 0 = Large False \<or>
          (parseInt (ttlBody t) 0 = Exact k \<and> 0 \<le> k \<and> 9007199254740992 \<le> k * ttlUnit t) \<longrightarrow>
           parseWorkflowCacheTtlCore input = parsedLarge)
      \<and> (ttlBody t = [] \<longrightarrow> parseWorkflowCacheTtlCore input = invalidTtl)
      \<and> (ttlBody t = c # rest \<and> \<not> isWhiteSpace c \<and> c \<noteq> CHR ''+'' \<and> c \<noteq> CHR ''-'' \<and>
          \<not> isDecimalDigit c \<longrightarrow> parseWorkflowCacheTtlCore input = invalidTtl)"
    by (rule impI) (rule parts)
  have D: "ds \<noteq> [] \<and> list_all isDecimalDigit ds \<and> list_all isWhiteSpace l \<and>
        list_all isWhiteSpace r \<longrightarrow>
        (decimalValue ds < 9007199254740992 \<longrightarrow>
           parseWorkflowCacheTtlCore (l @ ds @ r) = parsedOk (decimalValue ds)
         \<and> parseWorkflowCacheTtlCore (l @ ds @ ''s'' @ r) = parsedOk (decimalValue ds)
         \<and> parseWorkflowCacheTtlCore (l @ ds @ ''S'' @ r) = parsedOk (decimalValue ds))
      \<and> (decimalValue ds * 60 < 9007199254740992 \<longrightarrow>
           parseWorkflowCacheTtlCore (l @ ds @ ''m'' @ r) = parsedOk (decimalValue ds * 60)
         \<and> parseWorkflowCacheTtlCore (l @ ds @ ''M'' @ r) = parsedOk (decimalValue ds * 60))
      \<and> (decimalValue ds * 3600 < 9007199254740992 \<longrightarrow>
           parseWorkflowCacheTtlCore (l @ ds @ ''h'' @ r) = parsedOk (decimalValue ds * 3600)
         \<and> parseWorkflowCacheTtlCore (l @ ds @ ''H'' @ r) = parsedOk (decimalValue ds * 3600))
      \<and> (0 < decimalValue ds \<longrightarrow>
           parseWorkflowCacheTtlCore (l @ ''-'' @ ds @ r) = invalidTtl
         \<and> parseWorkflowCacheTtlCore (l @ ''-'' @ ds @ ''s'' @ r) = invalidTtl
         \<and> parseWorkflowCacheTtlCore (l @ ''-'' @ ds @ ''m'' @ r) = invalidTtl
         \<and> parseWorkflowCacheTtlCore (l @ ''-'' @ ds @ ''h'' @ r) = invalidTtl)"
  proof (rule impI)
    assume "ds \<noteq> [] \<and> list_all isDecimalDigit ds \<and> list_all isWhiteSpace l \<and>
        list_all isWhiteSpace r"
    then have "ds \<noteq> []" "list_all isDecimalDigit ds" "list_all isWhiteSpace l"
      "list_all isWhiteSpace r"
      by simp_all
    then show "(decimalValue ds < 9007199254740992 \<longrightarrow>
           parseWorkflowCacheTtlCore (l @ ds @ r) = parsedOk (decimalValue ds)
         \<and> parseWorkflowCacheTtlCore (l @ ds @ ''s'' @ r) = parsedOk (decimalValue ds)
         \<and> parseWorkflowCacheTtlCore (l @ ds @ ''S'' @ r) = parsedOk (decimalValue ds))
      \<and> (decimalValue ds * 60 < 9007199254740992 \<longrightarrow>
           parseWorkflowCacheTtlCore (l @ ds @ ''m'' @ r) = parsedOk (decimalValue ds * 60)
         \<and> parseWorkflowCacheTtlCore (l @ ds @ ''M'' @ r) = parsedOk (decimalValue ds * 60))
      \<and> (decimalValue ds * 3600 < 9007199254740992 \<longrightarrow>
           parseWorkflowCacheTtlCore (l @ ds @ ''h'' @ r) = parsedOk (decimalValue ds * 3600)
         \<and> parseWorkflowCacheTtlCore (l @ ds @ ''H'' @ r) = parsedOk (decimalValue ds * 3600))
      \<and> (0 < decimalValue ds \<longrightarrow>
           parseWorkflowCacheTtlCore (l @ ''-'' @ ds @ r) = invalidTtl
         \<and> parseWorkflowCacheTtlCore (l @ ''-'' @ ds @ ''s'' @ r) = invalidTtl
         \<and> parseWorkflowCacheTtlCore (l @ ''-'' @ ds @ ''m'' @ r) = invalidTtl
         \<and> parseWorkflowCacheTtlCore (l @ ''-'' @ ds @ ''h'' @ r) = invalidTtl)"
      by (rule numerals)
  qed
  from A B C D show ?thesis by (intro conjI)
qed

theorem parseWorkflowCacheTtlCore_behaviour_witness:
  "parseWorkflowCacheTtlCore ''soon'' = invalidTtl
   \<and> parseWorkflowCacheTtlCore ''xm'' = invalidTtl
   \<and> parseWorkflowCacheTtlCore ''-5m'' = invalidTtl
   \<and> parseWorkflowCacheTtlCore ''90'' = parsedOk 90
   \<and> parseWorkflowCacheTtlCore ''30s'' = parsedOk 30
   \<and> parseWorkflowCacheTtlCore ''10m'' = parsedOk 600
   \<and> parseWorkflowCacheTtlCore ''2H'' = parsedOk 7200
   \<and> parseWorkflowCacheTtlCore '' 10M '' = parsedOk 600
   \<and> parseWorkflowCacheTtlCore ''9007199254740993'' = parsedLarge"
proof -
  have n: "''soon'' = toLowerCase (trim ''soon'')" "''xm'' = toLowerCase (trim ''xm'')"
    "''9007199254740993'' = toLowerCase (trim ''9007199254740993'')"
    by code_simp+
  have b: "ttlBody ''soon'' = ''soon''" "ttlBody ''xm'' = ''x''"
    "ttlBody ''9007199254740993'' = ''9007199254740993''"
    "ttlUnit ''9007199254740993'' = 1"
    by (simp_all add: ttlBody_def ttlUnit_def)
  have w: "\<not> isWhiteSpace CHR ''s''" "\<not> isWhiteSpace CHR ''x''"
    "\<not> isDecimalDigit CHR ''s''" "\<not> isDecimalDigit CHR ''x''"
    by (simp_all add: isWhiteSpace_def isDecimalDigit_def)
  have v: "decimalValue ''90'' = 90" "decimalValue ''30'' = 30" "decimalValue ''10'' = 10"
    "decimalValue ''2'' = 2" "decimalValue ''5'' = 5"
    by (simp_all add: decimalValue_def)
  have big: "parseInt ''9007199254740993'' 0 = Large False"
  proof -
    have "list_all isDecimalDigit ''9007199254740993''" by (simp add: isDecimalDigit_def)
    then have "parseInt ''9007199254740993'' 0 = toNumber (decimalValue ''9007199254740993'')"
      by (intro parseInt_digits) simp_all
    also have "decimalValue ''9007199254740993'' = 9007199254740993"
      by (simp add: decimalValue_def)
    finally show ?thesis by (simp add: toNumber_def isSafeInteger_def)
  qed
  have 1: "parseWorkflowCacheTtlCore ''soon'' = invalidTtl"
    using parseWorkflowCacheTtlCore_behaviour
            [where input = "''soon''" and t = "''soon''" and c = "CHR ''s''"
                and rest = "''oon''"]
    by (simp add: n [symmetric] b w)
  have 2: "parseWorkflowCacheTtlCore ''xm'' = invalidTtl"
    using parseWorkflowCacheTtlCore_behaviour
            [where input = "''xm''" and t = "''xm''" and c = "CHR ''x''" and rest = "[]"]
    by (simp add: n [symmetric] b w)
  have 3: "parseWorkflowCacheTtlCore ''-5m'' = invalidTtl"
    using parseWorkflowCacheTtlCore_behaviour
            [where ds = "''5''" and l = "[]" and r = "[]"]
    by (simp add: v isDecimalDigit_def)
  have 4: "parseWorkflowCacheTtlCore ''90'' = parsedOk 90"
    using parseWorkflowCacheTtlCore_behaviour
            [where ds = "''90''" and l = "[]" and r = "[]"]
    by (simp add: v isDecimalDigit_def)
  have 5: "parseWorkflowCacheTtlCore ''30s'' = parsedOk 30"
    using parseWorkflowCacheTtlCore_behaviour
            [where ds = "''30''" and l = "[]" and r = "[]"]
    by (simp add: v isDecimalDigit_def)
  have 6: "parseWorkflowCacheTtlCore ''10m'' = parsedOk 600"
    using parseWorkflowCacheTtlCore_behaviour
            [where ds = "''10''" and l = "[]" and r = "[]"]
    by (simp add: v isDecimalDigit_def)
  have 7: "parseWorkflowCacheTtlCore ''2H'' = parsedOk 7200"
    using parseWorkflowCacheTtlCore_behaviour
            [where ds = "''2''" and l = "[]" and r = "[]"]
    by (simp add: v isDecimalDigit_def)
  have 8: "parseWorkflowCacheTtlCore '' 10M '' = parsedOk 600"
    using parseWorkflowCacheTtlCore_behaviour
            [where ds = "''10''" and l = "'' ''" and r = "'' ''"]
    by (simp add: v isDecimalDigit_def isWhiteSpace_def)
  have 9: "parseWorkflowCacheTtlCore ''9007199254740993'' = parsedLarge"
    using parseWorkflowCacheTtlCore_behaviour
            [where input = "''9007199254740993''" and t = "''9007199254740993''"]
    by (simp add: n [symmetric] b big)
  from 1 2 3 4 5 6 7 8 9 show ?thesis by simp
qed

text \<open>
  C7, as stated, fails: the input \<open>x90\<close>, with its non-numeric prefix, does not yield
  the message "Invalid format. Examples: 30s, 10m, 2h". \<open>parseInt\<close> returns NaN on it
  without throwing, and the NaN check answers with "Invalid cache TTL. Must be a
  positive number.".
\<close>

theorem parseWorkflowCacheTtlCore_nonnumeric_prefix:
  "parseWorkflowCacheTtlCore ''x90'' =
     \<lparr>success = False, message = ''Invalid cache TTL. Must be a positive number.'',
       exitCode = 1, error = JUndefined, data = None\<rparr>"
  by code_simp

end
